theory Spec2Isabelle
  imports Complex_Main "HOL-Library.Multiset"
begin

section \<open>JavaScript values, errors and the outside world\<close>

text \<open>
  The catalog code of the repository lives in \<^verbatim>\<open>src/firebase/degreeApi.js\<close> and in
  two other variants of the same module, \<^verbatim>\<open>src/unnamed/part_002\<close> (variant 2 below) and
  \<^verbatim>\<open>src/unnamed/part_003\<close> (variant 3). It drives
  three outside services: the \<^verbatim>\<open>uuid\<close> generator, the object store and the document
  database. Every call is written here as a function from the state of the world to a
  result and a new state; a JavaScript exception is the result \<open>Inl\<close>.

  Sibling callbacks that the source starts together under \<^verbatim>\<open>Promise.all\<close> are run
  here one after the other in the order of the input array, which is the order in which
  \<^verbatim>\<open>Promise.all\<close> hands their results back. A rejected sibling makes
  \<^verbatim>\<open>Promise.all\<close> reject at once; the writes that later siblings may still issue to the
  object store in the real program are not part of this model.
\<close>

datatype js_value = Undefined | Null | Num int | Str string

fun truthy :: "js_value \<Rightarrow> bool" where
  "truthy Undefined = False"
| "truthy Null = False"
| "truthy (Num n) = (n \<noteq> 0)"
| "truthy (Str s) = (s \<noteq> [])"

datatype error = Error string | TypeError string | ReferenceError string

record File =
  file_type :: string
  file_name :: string

datatype media_event = LoadedMetadata real | MediaError

text \<open>
  What the outside services will answer: the \<open>n\<close>-th value of the \<^verbatim>\<open>uuid\<close> generator,
  whether the object store accepts a write to a path, the download URL it gives for a path
  (if any), the event that the media element fires for a file, whether the database
  answers, the document identifiers the database hands out, and the clock.
\<close>

record env =
  uuids :: "nat \<Rightarrow> string"
  uploadBytes_ok :: "string \<Rightarrow> bool"
  downloadURL :: "string \<Rightarrow> string option"
  media_probe :: "File \<Rightarrow> media_event"
  firestore_ok :: bool
  autoIds :: "nat \<Rightarrow> string"
  now :: nat

text \<open>
  The state that the code changes: the number of \<^verbatim>\<open>uuidv4()\<close> calls so far, the objects
  written to the store, and the documents of the \<^verbatim>\<open>degrees\<close> collection with their
  document identifiers.
\<close>

record 'd world =
  uuid_calls :: nat
  bucket :: "(string \<times> File) list"
  degrees :: "(string \<times> 'd) list"

type_synonym ('d, 'a) io = "'d world \<Rightarrow> (error + 'a) \<times> 'd world"

definition io_return :: "'a \<Rightarrow> ('d, 'a) io" where
  "io_return x = (\<lambda>s. (Inr x, s))"

definition io_throw :: "error \<Rightarrow> ('d, 'a) io" where
  "io_throw err = (\<lambda>s. (Inl err, s))"

definition io_bind :: "('d, 'a) io \<Rightarrow> ('a \<Rightarrow> ('d, 'b) io) \<Rightarrow> ('d, 'b) io" where
  "io_bind m f = (\<lambda>s. case m s of (Inl err, s') \<Rightarrow> (Inl err, s') | (Inr x, s') \<Rightarrow> f x s')"

definition io_catch :: "('d, 'a) io \<Rightarrow> (error \<Rightarrow> ('d, 'a) io) \<Rightarrow> ('d, 'a) io" where
  "io_catch m h = (\<lambda>s. case m s of (Inl err, s') \<Rightarrow> h err s' | (Inr x, s') \<Rightarrow> (Inr x, s'))"

text \<open>\<^verbatim>\<open>await Promise.all(xs.map(async (x) => ...))\<close>: results in input order, the first
  failure fails the whole.\<close>

fun Promise_all_map :: "('a \<Rightarrow> ('d, 'b) io) \<Rightarrow> 'a list \<Rightarrow> ('d, 'b list) io" where
  "Promise_all_map f [] = io_return []"
| "Promise_all_map f (x # xs) =
     io_bind (f x) (\<lambda>y. io_bind (Promise_all_map f xs) (\<lambda>ys. io_return (y # ys)))"

text \<open>\<^verbatim>\<open>uuidv4()\<close>: the next value of the generator.\<close>

definition uuidv4 :: "env \<Rightarrow> ('d, string) io" where
  "uuidv4 e = (\<lambda>s. (Inr (uuids e (uuid_calls s)), s\<lparr>uuid_calls := Suc (uuid_calls s)\<rparr>))"

section \<open>The test object (degreeApi.js, createTestObject)\<close>

text \<open>
  The authoring input of a question. An absent (\<^verbatim>\<open>undefined\<close> or \<^verbatim>\<open>null\<close>) field is
  \<open>None\<close>; marks are integers.
\<close>

record question_spec =
  q_question :: string
  q_type :: string
  q_options :: "string list option"
  q_correctAnswer :: js_value
  q_answer :: "string option"
  q_marks :: "int option"

record testData =
  td_title :: string
  td_timeLimit :: int
  td_type :: string
  td_questions :: "question_spec list"

text \<open>
  The three shapes of \<^verbatim>\<open>questionData\<close> that the \<^verbatim>\<open>map\<close> callback of
  \<^verbatim>\<open>createTestObject\<close> builds: the fields of the \<^verbatim>\<open>MCQ\<close> branch, those of the
  \<^verbatim>\<open>Typed\<close> branch, and the two common fields alone when the type is neither.
\<close>

datatype questionData =
    MCQ_data (question: string) (options: "string list") (correctAnswer: js_value)
       (marks: int) (userAnswer: js_value)
  | Typed_data (question: string) (answer: string) (marks: int) (userAnswer: js_value)
  | Plain_data (question: string) (plain_answerType: string)

fun answerType :: "questionData \<Rightarrow> string" where
  "answerType (MCQ_data _ _ _ _ _) = ''MCQ''"
| "answerType (Typed_data _ _ _ _) = ''Typed''"
| "answerType (Plain_data _ t) = t"

record test =
  testId :: string
  test_title :: string
  timeLimit :: int
  test_type :: string
  totalMarks :: int
  questions :: "questionData list"

text \<open>\<^verbatim>\<open>question.marks || 1\<close>: an absent mark and the mark 0 are falsy.\<close>

definition marks_or_1 :: "int option \<Rightarrow> int" where
  "marks_or_1 m = (case m of None \<Rightarrow> 1 | Some v \<Rightarrow> if v = 0 then 1 else v)"

definition questionData_of :: "question_spec \<Rightarrow> questionData" where
  "questionData_of q =
     (if q_type q = ''MCQ'' then
        MCQ_data (q_question q)
          (case q_options q of None \<Rightarrow> [] | Some os \<Rightarrow> os)
          (if truthy (q_correctAnswer q) then q_correctAnswer q else Null)
          (marks_or_1 (q_marks q))
          Null
      else if q_type q = ''Typed'' then
        Typed_data (q_question q)
          (case q_answer q of None \<Rightarrow> [] | Some a \<Rightarrow> a)
          0
          (Str [])
      else Plain_data (q_question q) (q_type q))"

definition createTestObject :: "env \<Rightarrow> testData \<Rightarrow> ('d, test) io" where
  "createTestObject e td =
     io_bind (uuidv4 e) (\<lambda>tid. io_return
       \<lparr>testId = tid, test_title = td_title td, timeLimit = td_timeLimit td,
        test_type = td_type td, totalMarks = 0,
        questions = map questionData_of (td_questions td)\<rparr>)"

text \<open>
  The method \<^verbatim>\<open>calculateTotalMarks\<close>: the \<^verbatim>\<open>forEach\<close> is a left fold. The method
  exists only on the objects that \<^verbatim>\<open>createTestObject\<close> builds, for which the tests
  \<^verbatim>\<open>answerType === 'MCQ'\<close> and \<^verbatim>\<open>answerType === 'Typed'\<close> select the first and the
  second shape of \<^verbatim>\<open>questionData\<close>.
\<close>

fun add_marks :: "int \<Rightarrow> questionData \<Rightarrow> int" where
  "add_marks tot (MCQ_data _ _ _ m _) = tot + m"
| "add_marks tot (Typed_data _ _ m _) = tot + m"
| "add_marks tot (Plain_data _ _) = tot"

definition calculateTotalMarks :: "test \<Rightarrow> test" where
  "calculateTotalMarks t = t\<lparr>totalMarks := foldl add_marks 0 (questions t)\<rparr>"

text \<open>
  The method \<^verbatim>\<open>calculateUserMarks\<close>. \<^verbatim>\<open>userAnswers[index]\<close> is \<^verbatim>\<open>undefined\<close>
  beyond the end of the array, and reading a property of it raises a TypeError.
\<close>

record user_answer =
  ua_answer :: js_value
  isValidated :: bool

fun userMarks_loop :: "user_answer list \<Rightarrow> questionData list \<Rightarrow> nat \<Rightarrow> int \<Rightarrow> error + int" where
  "userMarks_loop uas [] index userTotal = Inr userTotal"
| "userMarks_loop uas (MCQ_data _ _ ca m _ # qs) index userTotal =
     (if index < length uas then
        userMarks_loop uas qs (Suc index)
          (if ua_answer (uas ! index) = ca then userTotal + m else userTotal)
      else Inl (TypeError ''Cannot read properties of undefined''))"
| "userMarks_loop uas (Typed_data _ _ m _ # qs) index userTotal =
     (if index < length uas then
        userMarks_loop uas qs (Suc index)
          (if isValidated (uas ! index) then userTotal + m else userTotal)
      else Inl (TypeError ''Cannot read properties of undefined''))"
| "userMarks_loop uas (Plain_data _ _ # qs) index userTotal =
     userMarks_loop uas qs (Suc index) userTotal"

definition calculateUserMarks :: "test \<Rightarrow> user_answer list \<Rightarrow> error + int" where
  "calculateUserMarks t userAnswers = userMarks_loop userAnswers (questions t) 0 0"

text \<open>The chapter path of \<^verbatim>\<open>addDegree\<close>: \<^verbatim>\<open>createTestObject\<close>, then
  \<^verbatim>\<open>calculateTotalMarks\<close> on the result.\<close>

definition build_chapter_test :: "env \<Rightarrow> testData \<Rightarrow> ('d, test) io" where
  "build_chapter_test e td = io_bind (createTestObject e td) (\<lambda>t. io_return (calculateTotalMarks t))"

section \<open>The asset uploader (degreeApi.js, uploadFile and uploadThumbnail)\<close>

definition SUPPORTED_FILE_FOLDERS :: "(string \<times> string) list" where
  "SUPPORTED_FILE_FOLDERS =
     [(''video'', ''videos''), (''audio'', ''audios''), (''image'', ''images''),
      (''document'', ''documents''), (''pdf'', ''documents''), (''ppt'', ''presentations'')]"

text \<open>
  \<^verbatim>\<open>SUPPORTED_FILE_FOLDERS[fileType]\<close> is a property read on an object literal: a key
  that the literal does not have is looked up in \<^verbatim>\<open>Object.prototype\<close>, whose members are
  functions (and the prototype object itself for \<^verbatim>\<open>__proto__\<close>), all truthy. The
  template literal of the storage path turns such a member into text; the text given here
  is the one V8 prints.
\<close>

definition Object_prototype_members :: "string list" where
  "Object_prototype_members =
     [''constructor'', ''__defineGetter__'', ''__defineSetter__'', ''hasOwnProperty'',
      ''__lookupGetter__'', ''__lookupSetter__'', ''isPrototypeOf'', ''propertyIsEnumerable'',
      ''toString'', ''valueOf'', ''__proto__'', ''toLocaleString'']"

definition inherited_text :: "string \<Rightarrow> string" where
  "inherited_text k =
     (if k = ''__proto__'' then ''[object Object]''
      else ''function '' @ (if k = ''constructor'' then ''Object'' else k) @ ''() { [native code] }'')"

definition folder_of :: "string \<Rightarrow> string option" where
  "folder_of fileType =
     (case map_of SUPPORTED_FILE_FOLDERS fileType of
        Some folder \<Rightarrow> Some folder
      | None \<Rightarrow> if fileType \<in> set Object_prototype_members
                then Some (inherited_text fileType) else None)"

definition uploadBytes :: "env \<Rightarrow> string \<Rightarrow> File \<Rightarrow> ('d, unit) io" where
  "uploadBytes e fileRef file =
     (\<lambda>s. if uploadBytes_ok e fileRef
          then (Inr (), s\<lparr>bucket := bucket s @ [(fileRef, file)]\<rparr>)
          else (Inl (Error ''storage: upload failed''), s))"

definition getDownloadURL :: "env \<Rightarrow> string \<Rightarrow> ('d, string) io" where
  "getDownloadURL e fileRef =
     (case downloadURL e fileRef of
        None \<Rightarrow> io_throw (Error ''storage: no download URL'')
      | Some u \<Rightarrow> io_return u)"

record file_asset =
  asset_url :: string
  asset_type :: string
  asset_name :: string
  duration :: "real option"

text \<open>
  \<^verbatim>\<open>getMediaDuration\<close> as variants 2 and 3 define it: the promise resolves with the
  duration when the media element fires \<^verbatim>\<open>loadedmetadata\<close> and with \<^verbatim>\<open>null\<close> when it
  fires \<^verbatim>\<open>error\<close>.
\<close>

definition getMediaDuration :: "env \<Rightarrow> File \<Rightarrow> ('d, real option) io" where
  "getMediaDuration e file =
     io_return (case media_probe e file of LoadedMetadata d \<Rightarrow> Some d | MediaError \<Rightarrow> None)"

text \<open>
  The error that line 21 of \<^verbatim>\<open>uploadFile\<close> throws for a type without a folder.
\<close>

definition UnsupportedFileType :: "File \<Rightarrow> error" where
  "UnsupportedFileType file = Error (''Unsupported file type: '' @ file_type file)"

text \<open>\<^verbatim>\<open>file.type.split('/')[0]\<close>: the text before the first slash.\<close>

definition fileType_of :: "File \<Rightarrow> string" where
  "fileType_of file = takeWhile (\<lambda>c. c \<noteq> CHR ''/'') (file_type file)"

text \<open>
  The body of \<^verbatim>\<open>uploadFile\<close> is the same text in degreeApi.js and in variant 3. What
  differs is the module around it: variant 3 defines \<^verbatim>\<open>getMediaDuration\<close>,
  degreeApi.js neither defines nor imports it, so there the call raises a ReferenceError.
  The first argument is the binding of that name in the module.
\<close>

definition uploadFile_in ::
  "(env \<Rightarrow> File \<Rightarrow> ('d, real option) io) option \<Rightarrow> env \<Rightarrow> File \<Rightarrow> ('d, file_asset) io" where
  "uploadFile_in getMediaDuration_binding e file =
     io_catch
       (let fileType = fileType_of file in
        case folder_of fileType of
          None \<Rightarrow> io_throw (UnsupportedFileType file)
        | Some folder \<Rightarrow>
            io_bind (uuidv4 e) (\<lambda>token.
            let fileRef = folder @ ''/'' @ token @ ''_'' @ file_name file in
            io_bind (uploadBytes e fileRef file) (\<lambda>u.
            io_bind (getDownloadURL e fileRef) (\<lambda>fileUrl.
            io_bind
              (if fileType = ''video'' \<or> fileType = ''audio'' then
                 (case getMediaDuration_binding of
                    None \<Rightarrow> io_throw (ReferenceError ''getMediaDuration is not defined'')
                  | Some g \<Rightarrow> g e file)
               else io_return None) (\<lambda>dur.
            io_return \<lparr>asset_url = fileUrl, asset_type = fileType,
              asset_name = file_name file, duration = dur\<rparr>)))))
       (\<lambda>err. io_throw (Error ''File upload failed''))"

definition uploadFile :: "env \<Rightarrow> File \<Rightarrow> ('d, file_asset) io" where
  "uploadFile = uploadFile_in None"

definition uploadFile_v3 :: "env \<Rightarrow> File \<Rightarrow> ('d, file_asset) io" where
  "uploadFile_v3 = uploadFile_in (Some getMediaDuration)"

definition uploadThumbnail :: "env \<Rightarrow> File \<Rightarrow> ('d, string) io" where
  "uploadThumbnail e file =
     io_catch
       (io_bind (uuidv4 e) (\<lambda>token.
        let fileRef = ''thumbnails/'' @ token @ ''_'' @ file_name file in
        io_bind (uploadBytes e fileRef file) (\<lambda>u. getDownloadURL e fileRef)))
       (\<lambda>err. io_throw (Error ''Thumbnail upload failed''))"

section \<open>The catalog tree\<close>

text \<open>
  The stored tree is the same in all variants up to the type of a lesson's file asset,
  of a test, of a thumbnail and of the overview points, which are parameters here.
\<close>

record overview_point =
  point_title :: string
  point_description :: string

record 'a lesson_rec =
  lessonId :: string
  lessonTitle :: string
  lesson_file :: 'a

record ('a, 't) chapter_rec =
  chapterId :: string
  chapterTitle :: string
  chapter_description :: string
  chapter_test :: "'t option"
  lessons :: "'a lesson_rec list"

record ('a, 't, 'h, 'p) course_rec =
  courseId :: string
  courseTitle :: string
  course_description :: string
  course_thumbnail :: "'h option"
  price :: int
  chapters :: "('a, 't) chapter_rec list"
  finalTest :: "'t option"
  course_overviewPoints :: 'p

record ('a, 't, 'h, 'p) degree_rec =
  degreeId :: string
  degreeTitle :: string
  degree_description :: string
  degree_thumbnail :: "'h option"
  degree_overviewPoints :: 'p
  courses :: "('a, 't, 'h, 'p) course_rec list"
  createdAt :: nat
  updatedAt :: "nat option"

type_synonym lesson_doc = "file_asset lesson_rec"
type_synonym chapter_doc = "(file_asset, test) chapter_rec"
type_synonym course_doc = "(file_asset, test, string, overview_point list) course_rec"
type_synonym degree_doc = "(file_asset, test, string, overview_point list) degree_rec"

text \<open>The authoring input.\<close>

record lesson_spec =
  ls_title :: string
  ls_file :: File

record chapter_spec =
  ch_title :: string
  ch_description :: "string option"
  ch_lessons :: "lesson_spec list"
  ch_test :: "testData option"

record course_spec =
  co_title :: string
  co_description :: string
  co_thumbnail :: "File option"
  co_price :: int
  co_chapters :: "chapter_spec list"
  co_finalTest :: "testData option"
  co_overviewPoints :: "overview_point list"

record degreeData =
  dd_name :: string
  dd_description :: string
  dd_thumbnail :: "File option"
  dd_overviewPoints :: "overview_point list"
  dd_courses :: "course_spec list"

section \<open>The assembler (degreeApi.js, addDegree)\<close>

definition copy_point :: "overview_point \<Rightarrow> overview_point" where
  "copy_point point = \<lparr>point_title = point_title point, point_description = point_description point\<rparr>"

text \<open>\<^verbatim>\<open>thumbnail ? await uploadThumbnail(thumbnail) : null\<close>\<close>

definition thumbnail_url :: "env \<Rightarrow> File option \<Rightarrow> ('d, string option) io" where
  "thumbnail_url e thumbnail =
     (case thumbnail of
        None \<Rightarrow> io_return None
      | Some f \<Rightarrow> io_bind (uploadThumbnail e f) (\<lambda>u. io_return (Some u)))"

definition formatLesson :: "env \<Rightarrow> lesson_spec \<Rightarrow> ('d, lesson_doc) io" where
  "formatLesson e lesson =
     io_bind (uploadFile e (ls_file lesson)) (\<lambda>lessonFileMetadata.
     io_bind (uuidv4 e) (\<lambda>lid.
     io_return \<lparr>lessonId = lid, lessonTitle = ls_title lesson, lesson_file = lessonFileMetadata\<rparr>))"

text \<open>\<^verbatim>\<open>const test = chapter.test ? createTestObject(chapter.test) : null;
  if (test) test.calculateTotalMarks();\<close>\<close>

definition chapter_test_of :: "env \<Rightarrow> testData option \<Rightarrow> ('d, test option) io" where
  "chapter_test_of e t =
     (case t of
        None \<Rightarrow> io_return None
      | Some td \<Rightarrow> io_bind (build_chapter_test e td) (\<lambda>tst. io_return (Some tst)))"

text \<open>\<^verbatim>\<open>finalTest: course.finalTest ? createTestObject(course.finalTest) : null\<close>\<close>

definition final_test_of :: "env \<Rightarrow> testData option \<Rightarrow> ('d, test option) io" where
  "final_test_of e t =
     (case t of
        None \<Rightarrow> io_return None
      | Some td \<Rightarrow> io_bind (createTestObject e td) (\<lambda>tst. io_return (Some tst)))"

definition formatChapter :: "env \<Rightarrow> chapter_spec \<Rightarrow> ('d, chapter_doc) io" where
  "formatChapter e chapter =
     io_bind (Promise_all_map (formatLesson e) (ch_lessons chapter)) (\<lambda>formattedLessons.
     io_bind (chapter_test_of e (ch_test chapter)) (\<lambda>tst.
     io_bind (uuidv4 e) (\<lambda>cid.
     io_return \<lparr>chapterId = cid, chapterTitle = ch_title chapter,
       chapter_description = (case ch_description chapter of None \<Rightarrow> [] | Some d \<Rightarrow> d),
       chapter_test = tst, lessons = formattedLessons\<rparr>)))"

definition formatCourse ::
  "env \<Rightarrow> course_spec \<Rightarrow> ('d, course_doc) io" where
  "formatCourse e course =
     io_bind (thumbnail_url e (co_thumbnail course)) (\<lambda>courseThumbnailUrl.
     io_bind (Promise_all_map (formatChapter e) (co_chapters course)) (\<lambda>formattedChapters.
     io_bind (uuidv4 e) (\<lambda>cid.
     io_bind (final_test_of e (co_finalTest course)) (\<lambda>ft.
     io_return \<lparr>courseId = cid, courseTitle = co_title course,
       course_description = co_description course, course_thumbnail = courseThumbnailUrl,
       price = co_price course, chapters = formattedChapters, finalTest = ft,
       course_overviewPoints = map copy_point (co_overviewPoints course)\<rparr>))))"

text \<open>The part of the \<^verbatim>\<open>try\<close> block of \<^verbatim>\<open>addDegree\<close> before the database write: it
  builds the object \<^verbatim>\<open>degree\<close>.\<close>

definition assembleDegree :: "env \<Rightarrow> degreeData \<Rightarrow> ('d, degree_doc) io" where
  "assembleDegree e degreeData =
     io_bind (thumbnail_url e (dd_thumbnail degreeData)) (\<lambda>degreeThumbnailUrl.
     io_bind (Promise_all_map (formatCourse e) (dd_courses degreeData)) (\<lambda>formattedCourses.
     io_bind (uuidv4 e) (\<lambda>did.
     io_return \<lparr>degreeId = did, degreeTitle = dd_name degreeData,
       degree_description = dd_description degreeData, degree_thumbnail = degreeThumbnailUrl,
       degree_overviewPoints = map copy_point (dd_overviewPoints degreeData),
       courses = formattedCourses, createdAt = now e, updatedAt = None\<rparr>)))"

text \<open>\<^verbatim>\<open>addDoc\<close> stores the document under an identifier of the database's own.\<close>

definition addDoc :: "env \<Rightarrow> 'd \<Rightarrow> ('d, unit) io" where
  "addDoc e document =
     (\<lambda>s. if firestore_ok e
          then (Inr (), s\<lparr>degrees := degrees s @ [(autoIds e (length (degrees s)), document)]\<rparr>)
          else (Inl (Error ''firestore: unavailable''), s))"

definition addDegree :: "env \<Rightarrow> degreeData \<Rightarrow> (degree_doc, string) io" where
  "addDegree e degreeData =
     io_catch
       (io_bind (assembleDegree e degreeData) (\<lambda>dg.
        io_bind (addDoc e dg) (\<lambda>u. io_return (degreeId dg))))
       (\<lambda>err. io_throw (Error ''Degree saving failed''))"

section \<open>The mutator of degreeApi.js (updateTest, editDegree)\<close>

text \<open>
  \<^verbatim>\<open>updateTest\<close> builds \<^verbatim>\<open>testObject\<close> as a plain object literal, which has no method
  \<^verbatim>\<open>calculateTotalMarks\<close>; the call \<^verbatim>\<open>testObject.calculateTotalMarks()\<close> on the next
  line raises a TypeError, so the \<^verbatim>\<open>return\<close> is never reached.
\<close>

definition updateTest :: "env \<Rightarrow> string \<Rightarrow> testData \<Rightarrow> ('d, test) io" where
  "updateTest e tid td =
     (let formattedQuestions = map questionData_of (td_questions td);
          testObject = \<lparr>testId = tid, test_title = td_title td, timeLimit = td_timeLimit td,
            test_type = td_type td, totalMarks = 0, questions = formattedQuestions\<rparr>
      in io_bind (io_throw (TypeError ''testObject.calculateTotalMarks is not a function''))
           (\<lambda>u :: unit. io_return testObject))"

text \<open>\<^verbatim>\<open>t ? await updateTest(uuidv4(), t) : null\<close>\<close>

definition rebuilt_test :: "env \<Rightarrow> testData option \<Rightarrow> ('d, test option) io" where
  "rebuilt_test e t =
     (case t of
        None \<Rightarrow> io_return None
      | Some td \<Rightarrow> io_bind (uuidv4 e) (\<lambda>tid.
                  io_bind (updateTest e tid td) (\<lambda>formattedTest. io_return (Some formattedTest))))"

definition reformatChapter :: "env \<Rightarrow> chapter_spec \<Rightarrow> ('d, chapter_doc) io" where
  "reformatChapter e chapter =
     io_bind (Promise_all_map (formatLesson e) (ch_lessons chapter)) (\<lambda>formattedLessons.
     io_bind (rebuilt_test e (ch_test chapter)) (\<lambda>formattedTest.
     io_bind (uuidv4 e) (\<lambda>cid.
     io_return \<lparr>chapterId = cid, chapterTitle = ch_title chapter,
       chapter_description = (case ch_description chapter of None \<Rightarrow> [] | Some d \<Rightarrow> d),
       chapter_test = formattedTest, lessons = formattedLessons\<rparr>)))"

definition reformatCourse :: "env \<Rightarrow> course_spec \<Rightarrow> ('d, course_doc) io" where
  "reformatCourse e course =
     io_bind (thumbnail_url e (co_thumbnail course)) (\<lambda>courseThumbnailUrl.
     io_bind (Promise_all_map (reformatChapter e) (co_chapters course)) (\<lambda>formattedChapters.
     io_bind (uuidv4 e) (\<lambda>cid.
     io_bind (rebuilt_test e (co_finalTest course)) (\<lambda>ft.
     io_return \<lparr>courseId = cid, courseTitle = co_title course,
       course_description = co_description course, course_thumbnail = courseThumbnailUrl,
       price = co_price course, chapters = formattedChapters, finalTest = ft,
       course_overviewPoints = map copy_point (co_overviewPoints course)\<rparr>))))"

text \<open>The object \<^verbatim>\<open>updatedDegree\<close>: the six fields that \<^verbatim>\<open>updateDoc\<close> overwrites.\<close>

record degree_patch =
  patch_degreeTitle :: string
  patch_description :: string
  patch_thumbnail :: "string option"
  patch_overviewPoints :: "overview_point list"
  patch_courses :: "course_doc list"
  patch_updatedAt :: nat

definition apply_patch :: "degree_patch \<Rightarrow> degree_doc \<Rightarrow> degree_doc" where
  "apply_patch p d = d\<lparr>degreeTitle := patch_degreeTitle p, degree_description := patch_description p,
     degree_thumbnail := patch_thumbnail p, degree_overviewPoints := patch_overviewPoints p,
     courses := patch_courses p, updatedAt := Some (patch_updatedAt p)\<rparr>"

text \<open>\<^verbatim>\<open>updateDoc(ref, fields)\<close> changes the fields of the document that \<^verbatim>\<open>ref\<close> names
  and fails when there is no such document.\<close>

definition updateDoc :: "env \<Rightarrow> string \<Rightarrow> ('d \<Rightarrow> 'd) \<Rightarrow> ('d, unit) io" where
  "updateDoc e docRef upd =
     (\<lambda>s. if \<not> firestore_ok e then (Inl (Error ''firestore: unavailable''), s)
          else if map_of (degrees s) docRef = None then (Inl (Error ''firestore: not-found''), s)
          else (Inr (), s\<lparr>degrees :=
                  map (\<lambda>kd. if fst kd = docRef then (fst kd, upd (snd kd)) else kd) (degrees s)\<rparr>))"

text \<open>\<^verbatim>\<open>degreeThumbnailUrl || null\<close>: the empty string is falsy.\<close>

definition or_null :: "string option \<Rightarrow> string option" where
  "or_null u = (case u of None \<Rightarrow> None | Some v \<Rightarrow> if v = [] then None else Some v)"

definition editDegree :: "env \<Rightarrow> string \<Rightarrow> degreeData \<Rightarrow> (degree_doc, degree_patch) io" where
  "editDegree e did updatedDegreeData =
     io_catch
       (io_bind (thumbnail_url e (dd_thumbnail updatedDegreeData)) (\<lambda>degreeThumbnailUrl.
        io_bind (Promise_all_map (reformatCourse e) (dd_courses updatedDegreeData)) (\<lambda>formattedCourses.
        let updatedDegree = \<lparr>patch_degreeTitle = dd_name updatedDegreeData,
              patch_description = dd_description updatedDegreeData,
              patch_thumbnail = or_null degreeThumbnailUrl,
              patch_overviewPoints = map copy_point (dd_overviewPoints updatedDegreeData),
              patch_courses = formattedCourses, patch_updatedAt = now e\<rparr>
        in io_bind (updateDoc e did (apply_patch updatedDegree)) (\<lambda>u. io_return updatedDegree))))
       (\<lambda>err. io_throw (Error ''Degree update failed''))"

section \<open>Variant 2 of the module: uploadFile, createTestObject, editDegree\<close>

record file_asset_v2 = file_asset +
  autoUpdate :: bool
  link :: string

definition uploadFile_v2 :: "env \<Rightarrow> File \<Rightarrow> ('d, file_asset_v2) io" where
  "uploadFile_v2 e file =
     io_catch
       (let fileType = fileType_of file in
        case folder_of fileType of
          None \<Rightarrow> io_throw (UnsupportedFileType file)
        | Some folder \<Rightarrow>
            io_bind (uuidv4 e) (\<lambda>token.
            let fileRef = folder @ ''/'' @ token @ ''_'' @ file_name file in
            io_bind (uploadBytes e fileRef file) (\<lambda>u.
            io_bind (getDownloadURL e fileRef) (\<lambda>fileUrl.
            io_bind
              (if fileType = ''video'' \<or> fileType = ''audio'' then getMediaDuration e file
               else io_return None) (\<lambda>dur.
            io_return \<lparr>asset_url = fileUrl, asset_type = fileType,
              asset_name = file_name file, duration = dur, autoUpdate = True, link = fileUrl\<rparr>)))))
       (\<lambda>err. io_throw (Error ''File upload failed''))"

record question_v2 =
  v2_question :: string
  v2_options :: "string list option"
  v2_correctAnswer :: js_value

record test_v2 =
  v2_testId :: string
  v2_title :: string
  v2_timeLimit :: int
  v2_type :: string
  v2_questions :: "question_v2 list"

definition createTestObject_v2 :: "env \<Rightarrow> testData \<Rightarrow> ('d, test_v2) io" where
  "createTestObject_v2 e td =
     io_bind (uuidv4 e) (\<lambda>tid. io_return
       \<lparr>v2_testId = tid, v2_title = td_title td, v2_timeLimit = td_timeLimit td,
        v2_type = td_type td,
        v2_questions = map (\<lambda>q. \<lparr>v2_question = q_question q, v2_options = q_options q,
            v2_correctAnswer = (if truthy (q_correctAnswer q) then q_correctAnswer q else Null)\<rparr>)
          (td_questions td)\<rparr>)"

type_synonym course_doc_v2 =
  "(file_asset_v2, test_v2, file_asset_v2, overview_point list option) course_rec"
type_synonym degree_doc_v2 =
  "(file_asset_v2, test_v2, file_asset_v2, overview_point list option) degree_rec"

record newCourse_spec =
  nc_title :: string
  nc_description :: string
  nc_thumbnail :: "File option"
  nc_price :: int
  nc_finalTest :: "testData option"
  nc_overviewPoints :: "overview_point list option"

record newChapter_spec =
  nch_courseId :: string
  nch_title :: string
  nch_description :: "string option"

record newLesson_spec =
  nl_courseId :: string
  nl_chapterId :: string
  nl_title :: string
  nl_file :: File

record updates =
  newCourse :: "newCourse_spec option"
  newChapter :: "newChapter_spec option"
  newLesson :: "newLesson_spec option"

text \<open>\<^verbatim>\<open>Array.prototype.findIndex\<close>; \<open>None\<close> stands for the result -1.\<close>

fun findIndex :: "('a \<Rightarrow> bool) \<Rightarrow> 'a list \<Rightarrow> nat option" where
  "findIndex P [] = None"
| "findIndex P (x # xs) = (if P x then Some 0 else map_option Suc (findIndex P xs))"

text \<open>\<^verbatim>\<open>getDocs(query(collection, where('degreeId', '==', degreeId)))\<close>: the matching
  documents, each with its reference.\<close>

definition getDocs_where_degreeId ::
  "env \<Rightarrow> string \<Rightarrow> (('a, 't, 'h, 'p) degree_rec, (string \<times> ('a, 't, 'h, 'p) degree_rec) list) io" where
  "getDocs_where_degreeId e did =
     (\<lambda>s. if firestore_ok e then (Inr (filter (\<lambda>kd. degreeId (snd kd) = did) (degrees s)), s)
          else (Inl (Error ''firestore: unavailable''), s))"

definition push_newCourse :: "env \<Rightarrow> updates \<Rightarrow> degree_doc_v2 \<Rightarrow> ('d, degree_doc_v2) io" where
  "push_newCourse e upd degreeData =
     (case newCourse upd of
        None \<Rightarrow> io_return degreeData
      | Some nc \<Rightarrow>
          io_bind (uuidv4 e) (\<lambda>cid.
          io_bind (case nc_thumbnail nc of
                     None \<Rightarrow> io_return None
                   | Some f \<Rightarrow> io_bind (uploadFile_v2 e f) (\<lambda>a. io_return (Some a))) (\<lambda>thumb.
          io_bind (case nc_finalTest nc of
                     None \<Rightarrow> io_return None
                   | Some td \<Rightarrow> io_bind (createTestObject_v2 e td) (\<lambda>t. io_return (Some t))) (\<lambda>ft.
          io_return (degreeData\<lparr>courses := courses degreeData @
            [\<lparr>courseId = cid, courseTitle = nc_title nc, course_description = nc_description nc,
              course_thumbnail = thumb, price = nc_price nc, chapters = [], finalTest = ft,
              course_overviewPoints = nc_overviewPoints nc\<rparr>]\<rparr>)))))"

definition push_newChapter :: "env \<Rightarrow> updates \<Rightarrow> degree_doc_v2 \<Rightarrow> ('d, degree_doc_v2) io" where
  "push_newChapter e upd degreeData =
     (case newChapter upd of
        None \<Rightarrow> io_return degreeData
      | Some nch \<Rightarrow>
          (case findIndex (\<lambda>course. courseId course = nch_courseId nch) (courses degreeData) of
             None \<Rightarrow> io_throw (Error (''Course with ID '' @ nch_courseId nch @ '' not found.''))
           | Some courseIndex \<Rightarrow>
               io_bind (uuidv4 e) (\<lambda>cid.
               let course = courses degreeData ! courseIndex;
                   newChapter = \<lparr>chapterId = cid, chapterTitle = nch_title nch,
                     chapter_description = (case nch_description nch of None \<Rightarrow> [] | Some d \<Rightarrow> d),
                     chapter_test = None, lessons = []\<rparr>
               in io_return (degreeData\<lparr>courses := (courses degreeData)
                    [courseIndex := course\<lparr>chapters := chapters course @ [newChapter]\<rparr>]\<rparr>))))"

definition push_newLesson :: "env \<Rightarrow> updates \<Rightarrow> degree_doc_v2 \<Rightarrow> ('d, degree_doc_v2) io" where
  "push_newLesson e upd degreeData =
     (case newLesson upd of
        None \<Rightarrow> io_return degreeData
      | Some nl \<Rightarrow>
          (case findIndex (\<lambda>course. courseId course = nl_courseId nl) (courses degreeData) of
             None \<Rightarrow> io_throw (Error (''Course with ID '' @ nl_courseId nl @ '' not found.''))
           | Some courseIndex \<Rightarrow>
               (let course = courses degreeData ! courseIndex in
                case findIndex (\<lambda>chapter. chapterId chapter = nl_chapterId nl) (chapters course) of
                  None \<Rightarrow> io_throw (Error (''Chapter with ID '' @ nl_chapterId nl @ '' not found.''))
                | Some chapterIndex \<Rightarrow>
                    io_bind (uploadFile_v2 e (nl_file nl)) (\<lambda>lessonFileMetadata.
                    io_bind (uuidv4 e) (\<lambda>lid.
                    let chapter = chapters course ! chapterIndex;
                        newLesson = \<lparr>lessonId = lid, lessonTitle = nl_title nl,
                          lesson_file = lessonFileMetadata\<rparr>
                    in io_return (degreeData\<lparr>courses := (courses degreeData)
                         [courseIndex := course\<lparr>chapters := (chapters course)
                            [chapterIndex := chapter\<lparr>lessons := lessons chapter @ [newLesson]\<rparr>]\<rparr>]\<rparr>))))))"

text \<open>The \<^verbatim>\<open>catch\<close> block of this \<^verbatim>\<open>editDegree\<close> logs the error and returns
  \<^verbatim>\<open>false\<close>.\<close>

definition editDegree_v2 :: "env \<Rightarrow> string \<Rightarrow> updates \<Rightarrow> (degree_doc_v2, bool) io" where
  "editDegree_v2 e did upd =
     io_catch
       (io_bind (getDocs_where_degreeId e did) (\<lambda>degreeSnapshot.
        case degreeSnapshot of
          [] \<Rightarrow> io_throw (Error (''Degree with ID '' @ did @ '' not found.''))
        | degreeDoc # rest \<Rightarrow>
            io_bind (push_newCourse e upd (snd degreeDoc)) (\<lambda>data1.
            io_bind (push_newChapter e upd data1) (\<lambda>data2.
            io_bind (push_newLesson e upd data2) (\<lambda>data3.
            io_bind (updateDoc e (fst degreeDoc) (\<lambda>old. data3)) (\<lambda>u. io_return True))))))
       (\<lambda>err. io_return False)"

section \<open>The notions of the claims\<close>

text \<open>The notions the claims about tests use: the number of \<^verbatim>\<open>MCQ\<close> questions of an
  authored test, a submitted answer that equals the correct answer of its \<^verbatim>\<open>MCQ\<close>
  question, and a \<^verbatim>\<open>Typed\<close> question whose answer is marked validated.\<close>

definition is_MCQ_spec :: "question_spec \<Rightarrow> bool" where
  "is_MCQ_spec q = (q_type q = ''MCQ'')"

definition mcq_count :: "testData \<Rightarrow> nat" where
  "mcq_count td = length (filter is_MCQ_spec (td_questions td))"

fun mcq_hit :: "questionData \<Rightarrow> user_answer \<Rightarrow> bool" where
  "mcq_hit (MCQ_data _ _ ca _ _) ua = (ua_answer ua = ca)"
| "mcq_hit _ ua = False"

fun typed_validated :: "questionData \<Rightarrow> user_answer \<Rightarrow> bool" where
  "typed_validated (Typed_data _ _ _ _) ua = isValidated ua"
| "typed_validated _ ua = False"

text \<open>
  A computation keeps the \<^verbatim>\<open>degrees\<close> collection when no run of it changes the
  collection. A stored tree mirrors an authoring input when, level by level, the lists have
  the same length and the entries at the same position belong together (\<open>list_all2\<close>).
  The identifiers of a stored tree are listed by \<open>degree_ids\<close>; a list of identifiers
  is fresh between two states when its members are distinct values that the generator
  returned between those states.
\<close>

definition keeps_degrees :: "('d, 'a) io \<Rightarrow> bool" where
  "keeps_degrees m = (\<forall>s. degrees (snd (m s)) = degrees s)"

definition question_mirrors :: "question_spec \<Rightarrow> questionData \<Rightarrow> bool" where
  "question_mirrors q qd = (question qd = q_question q \<and> answerType qd = q_type q)"

definition test_mirrors :: "testData \<Rightarrow> test \<Rightarrow> bool" where
  "test_mirrors td t =
     (test_title t = td_title td \<and> list_all2 question_mirrors (td_questions td) (questions t))"

definition lesson_mirrors :: "lesson_spec \<Rightarrow> lesson_doc \<Rightarrow> bool" where
  "lesson_mirrors ls l = (lessonTitle l = ls_title ls)"

definition chapter_mirrors :: "chapter_spec \<Rightarrow> chapter_doc \<Rightarrow> bool" where
  "chapter_mirrors ch c =
     (chapterTitle c = ch_title ch \<and> list_all2 lesson_mirrors (ch_lessons ch) (lessons c) \<and>
      rel_option test_mirrors (ch_test ch) (chapter_test c))"

definition course_mirrors :: "course_spec \<Rightarrow> course_doc \<Rightarrow> bool" where
  "course_mirrors co c =
     (courseTitle c = co_title co \<and> list_all2 chapter_mirrors (co_chapters co) (chapters c) \<and>
      rel_option test_mirrors (co_finalTest co) (finalTest c) \<and>
      course_overviewPoints c = co_overviewPoints co)"

definition degree_mirrors :: "degreeData \<Rightarrow> degree_doc \<Rightarrow> bool" where
  "degree_mirrors d g =
     (degreeTitle g = dd_name d \<and> degree_overviewPoints g = dd_overviewPoints d \<and>
      list_all2 course_mirrors (dd_courses d) (courses g))"

definition test_ids :: "test option \<Rightarrow> string list" where
  "test_ids t = (case t of None \<Rightarrow> [] | Some tst \<Rightarrow> [testId tst])"

definition chapter_ids :: "chapter_doc \<Rightarrow> string list" where
  "chapter_ids c = chapterId c # test_ids (chapter_test c) @ map lessonId (lessons c)"

definition course_ids :: "course_doc \<Rightarrow> string list" where
  "course_ids c = courseId c # test_ids (finalTest c) @ concat (map chapter_ids (chapters c))"

definition degree_ids :: "degree_doc \<Rightarrow> string list" where
  "degree_ids g = degreeId g # concat (map course_ids (courses g))"

definition fresh_ids :: "env \<Rightarrow> 'd world \<Rightarrow> 'd world \<Rightarrow> string list \<Rightarrow> bool" where
  "fresh_ids e s s' ids =
     (uuid_calls s \<le> uuid_calls s' \<and> distinct ids \<and>
      set ids \<subseteq> uuids e ` {uuid_calls s..<uuid_calls s'})"

text \<open>
  The sum of the \<^verbatim>\<open>marks\<close> fields of the questions of a test (a question of neither
  type has no such field), and the final tests of the stored degrees.
\<close>

fun marks_of :: "questionData \<Rightarrow> int" where
  "marks_of (MCQ_data _ _ _ m _) = m"
| "marks_of (Typed_data _ _ m _) = m"
| "marks_of (Plain_data _ _) = 0"

definition sum_of_marks :: "test \<Rightarrow> int" where
  "sum_of_marks t = sum_list (map marks_of (questions t))"

definition stored_final_tests :: "degree_doc world \<Rightarrow> test list" where
  "stored_final_tests s =
     concat (map (\<lambda>kd. concat (map (\<lambda>c. case finalTest c of None \<Rightarrow> [] | Some t \<Rightarrow> [t])
       (courses (snd kd)))) (degrees s))"

definition stored_chapter_tests :: "degree_doc world \<Rightarrow> test list" where
  "stored_chapter_tests s =
     concat (map (\<lambda>kd. concat (map (\<lambda>c. concat (map
         (\<lambda>ch. case chapter_test ch of None \<Rightarrow> [] | Some t \<Rightarrow> [t]) (chapters c)))
       (courses (snd kd)))) (degrees s))"

section \<open>The steps of addDegree\<close>

text \<open>
  The steps that \<^verbatim>\<open>addDegree\<close> performs before the database write, in the order in which
  it performs them: a thumbnail upload, a file upload, the generation of an identifier, the
  building of a chapter test and of a final test. \<open>run_step\<close> is the effect of a step on
  the world and whether it fails; \<open>run_steps\<close> runs a list of steps and stops at the first
  that fails; \<open>steps_reached\<close> lists, for a run from a given state, every step that is
  started together with the state in which it is started. \<open>degree_steps\<close> is the list of
  steps of an authoring input; that \<open>assembleDegree\<close> has exactly the effect of running
  this list is proved below (\<open>effect_assembleDegree\<close>).
\<close>

datatype step = UploadThumbnail File | UploadFile File | NewId | ChapterTest testData | FinalTest testData

definition effect :: "('d, 'a) io \<Rightarrow> ('d, unit) io" where
  "effect m = io_bind m (\<lambda>x. io_return ())"

fun run_step :: "env \<Rightarrow> step \<Rightarrow> ('d, unit) io" where
  "run_step e (UploadThumbnail f) = effect (uploadThumbnail e f)"
| "run_step e (UploadFile f) = effect (uploadFile e f)"
| "run_step e NewId = effect (uuidv4 e)"
| "run_step e (ChapterTest td) = effect (build_chapter_test e td)"
| "run_step e (FinalTest td) = effect (createTestObject e td)"

fun run_steps :: "env \<Rightarrow> step list \<Rightarrow> ('d, unit) io" where
  "run_steps e [] = io_return ()"
| "run_steps e (st # sts) = io_bind (run_step e st) (\<lambda>u. run_steps e sts)"

fun steps_reached :: "env \<Rightarrow> step list \<Rightarrow> 'd world \<Rightarrow> (step \<times> 'd world) list" where
  "steps_reached e [] s = []"
| "steps_reached e (st # sts) s =
     (st, s) # (case run_step e st s of
                  (Inl err, s') \<Rightarrow> []
                | (Inr u, s') \<Rightarrow> steps_reached e sts s')"

definition thumbnail_steps :: "File option \<Rightarrow> step list" where
  "thumbnail_steps t = (case t of None \<Rightarrow> [] | Some f \<Rightarrow> [UploadThumbnail f])"

definition lesson_steps :: "lesson_spec \<Rightarrow> step list" where
  "lesson_steps l = [UploadFile (ls_file l), NewId]"

definition chapter_steps :: "chapter_spec \<Rightarrow> step list" where
  "chapter_steps ch =
     concat (map lesson_steps (ch_lessons ch)) @
     (case ch_test ch of None \<Rightarrow> [] | Some td \<Rightarrow> [ChapterTest td]) @ [NewId]"

definition course_steps :: "course_spec \<Rightarrow> step list" where
  "course_steps co =
     thumbnail_steps (co_thumbnail co) @ concat (map chapter_steps (co_chapters co)) @ [NewId] @
     (case co_finalTest co of None \<Rightarrow> [] | Some td \<Rightarrow> [FinalTest td])"

definition degree_steps :: "degreeData \<Rightarrow> step list" where
  "degree_steps d =
     thumbnail_steps (dd_thumbnail d) @ concat (map course_steps (dd_courses d)) @ [NewId]"

section \<open>Fixtures\<close>

text \<open>A world in which every outside call succeeds, and the empty world.\<close>

definition env_ok :: env where
  "env_ok = \<lparr>uuids = (\<lambda>n. replicate (Suc n) CHR ''u''),
     uploadBytes_ok = (\<lambda>p. True),
     downloadURL = (\<lambda>p. Some (''https://store/'' @ p)),
     media_probe = (\<lambda>f. MediaError),
     firestore_ok = True,
     autoIds = (\<lambda>n. replicate (Suc n) CHR ''d''),
     now = 1000\<rparr>"

text \<open>The same world with an object store that refuses every write.\<close>

definition env_store_down :: env where
  "env_store_down = env_ok\<lparr>uploadBytes_ok := (\<lambda>p. False)\<rparr>"

definition world0 :: "'d world" where
  "world0 = \<lparr>uuid_calls = 0, bucket = [], degrees = []\<rparr>"

definition mcq_q :: "string \<Rightarrow> js_value \<Rightarrow> int option \<Rightarrow> question_spec" where
  "mcq_q txt ca m = \<lparr>q_question = txt, q_type = ''MCQ'', q_options = Some [''a'', ''b''],
     q_correctAnswer = ca, q_answer = None, q_marks = m\<rparr>"

definition typed_q :: "string \<Rightarrow> question_spec" where
  "typed_q txt = \<lparr>q_question = txt, q_type = ''Typed'', q_options = None,
     q_correctAnswer = Undefined, q_answer = Some ''ref'', q_marks = None\<rparr>"

definition quiz :: "question_spec list \<Rightarrow> testData" where
  "quiz qs = \<lparr>td_title = ''Quiz'', td_timeLimit = 30, td_type = ''chapter'', td_questions = qs\<rparr>"

definition sample_test :: test where
  "sample_test = calculateTotalMarks
     \<lparr>testId = ''u'', test_title = ''Quiz'', timeLimit = 30, test_type = ''chapter'', totalMarks = 0,
      questions = map questionData_of [mcq_q ''q1'' (Str ''a'') (Some 2), typed_q ''q2'']\<rparr>"

definition image_file :: File where
  "image_file = \<lparr>file_type = ''image/png'', file_name = ''cover.png''\<rparr>"

definition pdf_file :: File where
  "pdf_file = \<lparr>file_type = ''application/pdf'', file_name = ''notes.pdf''\<rparr>"

definition video_file :: File where
  "video_file = \<lparr>file_type = ''video/mp4'', file_name = ''welcome.mp4''\<rparr>"

text \<open>The empty world after the upload of the course thumbnail of the sample degree.\<close>

definition after_thumbnail :: "degree_doc world" where
  "after_thumbnail = \<lparr>uuid_calls = 1, bucket = [(''thumbnails/u_cover.png'', image_file)], degrees = []\<rparr>"

text \<open>A degree with one course, one chapter and one lesson; the file of the lesson and the
  final test of the course are left open.\<close>

definition sample_degree :: "File \<Rightarrow> testData option \<Rightarrow> degreeData" where
  "sample_degree f ft =
     \<lparr>dd_name = ''Theology I'', dd_description = ''First degree'', dd_thumbnail = None,
      dd_overviewPoints = [\<lparr>point_title = ''Why'', point_description = ''Because''\<rparr>],
      dd_courses =
        [\<lparr>co_title = ''Intro'', co_description = ''Start'', co_thumbnail = Some image_file,
          co_price = 0,
          co_chapters =
            [\<lparr>ch_title = ''Basics'', ch_description = None,
              ch_lessons = [\<lparr>ls_title = ''Welcome'', ls_file = f\<rparr>],
              ch_test = Some (quiz [mcq_q ''q1'' (Str ''a'') (Some 2), typed_q ''q2''])\<rparr>],
          co_finalTest = ft, co_overviewPoints = []\<rparr>]\<rparr>"

text \<open>An update without thumbnail and without tests, and a world that stores one degree
  with a thumbnail under the document identifier \<^verbatim>\<open>doc1\<close>.\<close>

definition plain_update :: degreeData where
  "plain_update =
     \<lparr>dd_name = ''Theology II'', dd_description = ''Second edition'', dd_thumbnail = None,
      dd_overviewPoints = [],
      dd_courses =
        [\<lparr>co_title = ''Intro'', co_description = ''Start'', co_thumbnail = None, co_price = 0,
          co_chapters =
            [\<lparr>ch_title = ''Basics'', ch_description = Some ''First steps'',
              ch_lessons = [\<lparr>ls_title = ''Welcome'', ls_file = image_file\<rparr>],
              ch_test = None\<rparr>],
          co_finalTest = None, co_overviewPoints = []\<rparr>]\<rparr>"

definition stored_world :: "degree_doc world" where
  "stored_world =
     \<lparr>uuid_calls = 0, bucket = [],
      degrees = [(''doc1'',
        \<lparr>degreeId = ''deg1'', degreeTitle = ''Theology I'', degree_description = ''First degree'',
         degree_thumbnail = Some ''https://store/thumbnails/old.png'', degree_overviewPoints = [],
         courses = [], createdAt = 1, updatedAt = None\<rparr>)]\<rparr>"

text \<open>A world of variant 2 that stores the degree \<^verbatim>\<open>deg1\<close> with the course \<^verbatim>\<open>c1\<close> and
  its chapter \<^verbatim>\<open>ch1\<close>, and a request to append a lesson.\<close>

definition stored_world_v2 :: "degree_doc_v2 world" where
  "stored_world_v2 =
     \<lparr>uuid_calls = 0, bucket = [],
      degrees = [(''doc1'',
        \<lparr>degreeId = ''deg1'', degreeTitle = ''Theology I'', degree_description = ''First degree'',
         degree_thumbnail = None, degree_overviewPoints = None,
         courses =
           [\<lparr>courseId = ''c1'', courseTitle = ''Intro'', course_description = ''Start'',
             course_thumbnail = None, price = 0,
             chapters = [\<lparr>chapterId = ''ch1'', chapterTitle = ''Basics'',
               chapter_description = [], chapter_test = None, lessons = []\<rparr>],
             finalTest = None, course_overviewPoints = None\<rparr>],
         createdAt = 1, updatedAt = None\<rparr>)]\<rparr>"

definition append_lesson :: "string \<Rightarrow> string \<Rightarrow> updates" where
  "append_lesson cid chid =
     \<lparr>newCourse = None, newChapter = None,
      newLesson = Some \<lparr>nl_courseId = cid, nl_chapterId = chid, nl_title = ''Welcome'',
        nl_file = image_file\<rparr>\<rparr>"

section \<open>Facts about the outside world\<close>

lemma io_bind_Inr:
  "io_bind m f s = (Inr y, s') \<longleftrightarrow> (\<exists>x s1. m s = (Inr x, s1) \<and> f x s1 = (Inr y, s'))"
  by (cases "m s") (auto simp: io_bind_def split: sum.splits)

lemma io_return_Inr: "io_return x s = (Inr y, s') \<longleftrightarrow> y = x \<and> s' = s"
  by (auto simp: io_return_def)

lemma io_throw_Inr: "io_throw err s = (Inr y, s') \<longleftrightarrow> False"
  by (simp add: io_throw_def)

lemma io_catch_rethrow_Inr:
  "io_catch m (\<lambda>err. io_throw (h err)) s = (Inr y, s') \<longleftrightarrow> m s = (Inr y, s')"
  by (cases "m s") (auto simp: io_catch_def io_throw_def split: sum.splits)

lemma uuidv4_Inr:
  "uuidv4 e s = (Inr x, s') \<longleftrightarrow> x = uuids e (uuid_calls s) \<and> s' = s\<lparr>uuid_calls := Suc (uuid_calls s)\<rparr>"
  by (auto simp: uuidv4_def)

lemmas io_Inr = io_bind_Inr io_return_Inr io_throw_Inr io_catch_rethrow_Inr uuidv4_Inr

lemma uploadBytes_Inr:
  "uploadBytes e p f s = (Inr u, s') \<longleftrightarrow>
     uploadBytes_ok e p \<and> s' = s\<lparr>bucket := bucket s @ [(p, f)]\<rparr>"
  by (auto simp: uploadBytes_def)

lemma getDownloadURL_Inr:
  "getDownloadURL e p s = (Inr u, s') \<longleftrightarrow> downloadURL e p = Some u \<and> s' = s"
  by (auto simp: getDownloadURL_def io_Inr split: option.splits)

lemma updateDoc_Inr:
  "updateDoc e r u s = (Inr x, s') \<longleftrightarrow>
     firestore_ok e \<and> map_of (degrees s) r \<noteq> None \<and>
     s' = s\<lparr>degrees := map (\<lambda>kd. if fst kd = r then (fst kd, u (snd kd)) else kd) (degrees s)\<rparr>"
  by (auto simp: updateDoc_def)

lemma map_of_update_key:
  "map_of (map (\<lambda>kd. if fst kd = k then (fst kd, u (snd kd)) else kd) xs) k = map_option u (map_of xs k)"
  by (induction xs) auto

lemma Promise_all_map_rel:
  assumes "\<And>x y s s'. x \<in> set xs \<Longrightarrow> f x s = (Inr y, s') \<Longrightarrow> R x y"
  shows "Promise_all_map f xs s = (Inr ys, s') \<Longrightarrow> list_all2 R xs ys"
  using assms
proof (induction xs arbitrary: s ys)
  case Nil
  then show ?case by (simp add: io_Inr)
next
  case (Cons x xs)
  from Cons.prems(1) obtain y s1 zs where
    y: "f x s = (Inr y, s1)" and zs: "Promise_all_map f xs s1 = (Inr zs, s')" and ys: "ys = y # zs"
    by (auto simp: io_Inr)
  have "R x y" using Cons.prems(2) [of x s y s1] y by simp
  moreover have "list_all2 R xs zs"
    using Cons.IH [OF zs] Cons.prems(2) by simp
  ultimately show ?case using ys by simp
qed

lemma keeps_degreesD: "keeps_degrees m \<Longrightarrow> degrees (snd (m s)) = degrees s"
  by (simp add: keeps_degrees_def)

lemma keeps_return: "keeps_degrees (io_return x)"
  by (simp add: keeps_degrees_def io_return_def)

lemma keeps_throw: "keeps_degrees (io_throw err)"
  by (simp add: keeps_degrees_def io_throw_def)

lemma keeps_bind:
  assumes "keeps_degrees m" and "\<And>x. keeps_degrees (f x)"
  shows "keeps_degrees (io_bind m f)"
proof -
  have "degrees (snd (io_bind m f s)) = degrees s" for s
  proof (cases "m s")
    case (Pair r s1)
    have s1: "degrees s1 = degrees s"
      using assms(1) Pair by (auto simp: keeps_degrees_def dest: spec [of _ s])
    show ?thesis
    proof (cases r)
      case (Inl err)
      then show ?thesis using Pair s1 by (simp add: io_bind_def)
    next
      case (Inr x)
      have "degrees (snd (f x s1)) = degrees s1"
        using assms(2) [of x] by (simp add: keeps_degrees_def)
      then show ?thesis using Pair Inr s1 by (simp add: io_bind_def)
    qed
  qed
  then show ?thesis by (simp add: keeps_degrees_def)
qed

lemma keeps_catch:
  assumes "keeps_degrees m" and "\<And>err. keeps_degrees (h err)"
  shows "keeps_degrees (io_catch m h)"
proof -
  have "degrees (snd (io_catch m h s)) = degrees s" for s
  proof (cases "m s")
    case (Pair r s1)
    have s1: "degrees s1 = degrees s"
      using assms(1) Pair by (auto simp: keeps_degrees_def dest: spec [of _ s])
    show ?thesis
    proof (cases r)
      case (Inl err)
      have "degrees (snd (h err s1)) = degrees s1"
        using assms(2) [of err] by (simp add: keeps_degrees_def)
      then show ?thesis using Pair Inl s1 by (simp add: io_catch_def)
    next
      case (Inr x)
      then show ?thesis using Pair s1 by (simp add: io_catch_def)
    qed
  qed
  then show ?thesis by (simp add: keeps_degrees_def)
qed

lemma keeps_Promise_all_map:
  assumes "\<And>x. keeps_degrees (f x)"
  shows "keeps_degrees (Promise_all_map f xs)"
  by (induction xs) (simp_all add: keeps_return keeps_bind assms)

lemma keeps_uuidv4: "keeps_degrees (uuidv4 e)"
  by (simp add: keeps_degrees_def uuidv4_def)

lemma keeps_uploadBytes: "keeps_degrees (uploadBytes e p f)"
  by (simp add: keeps_degrees_def uploadBytes_def)

lemma keeps_getDownloadURL: "keeps_degrees (getDownloadURL e p)"
  by (simp add: getDownloadURL_def keeps_return keeps_throw split: option.split)

lemma keeps_getMediaDuration: "keeps_degrees (getMediaDuration e f)"
  by (simp add: getMediaDuration_def keeps_return)

lemmas keeps_intros = keeps_return keeps_throw keeps_bind keeps_catch keeps_Promise_all_map
  keeps_uuidv4 keeps_uploadBytes keeps_getDownloadURL keeps_getMediaDuration

text \<open>A failing step fails the whole: the first of two steps, the second when it fails
  whatever the first returns, and any element under \<^verbatim>\<open>Promise.all\<close> whose callback fails
  in every state.\<close>

lemma io_bind_fails_first: "isl (fst (m s)) \<Longrightarrow> isl (fst (io_bind m f s))"
  by (cases "m s") (auto simp: io_bind_def split: sum.splits)

lemma io_bind_fails_second: "(\<And>x s1. isl (fst (f x s1))) \<Longrightarrow> isl (fst (io_bind m f s))"
  by (cases "m s") (auto simp: io_bind_def split: sum.splits)

lemma Promise_all_map_fails:
  assumes "x \<in> set xs" and "\<And>s. isl (fst (f x s))"
  shows "isl (fst (Promise_all_map f xs s))"
  using assms(1)
proof (induction xs arbitrary: s)
  case Nil
  then show ?case by simp
next
  case (Cons y ys)
  show ?case
  proof (cases "x = y")
    case True
    then show ?thesis using assms(2) by (simp add: io_bind_fails_first)
  next
    case False
    then have "x \<in> set ys" using Cons.prems by simp
    then have "\<And>s1. isl (fst (Promise_all_map f ys s1))" by (rule Cons.IH)
    then have "\<And>v s1. isl (fst (io_bind (Promise_all_map f ys) (\<lambda>zs. io_return (v # zs)) s1))"
      by (simp add: io_bind_fails_first)
    then show ?thesis by (simp add: io_bind_fails_second)
  qed
qed

text \<open>The laws of sequencing, and the effect of a computation whose result is dropped.\<close>

lemma io_bind_assoc: "io_bind (io_bind m f) g = io_bind m (\<lambda>x. io_bind (f x) g)"
  by (rule ext) (simp add: io_bind_def split: prod.split sum.split)

lemma io_bind_return: "io_bind (io_return x) f = f x"
  by (rule ext) (simp add: io_bind_def io_return_def)

lemma io_bind_unit: "io_bind m io_return = m"
  by (rule ext) (auto simp: io_bind_def io_return_def split: prod.splits sum.splits)

lemma effect_return: "effect (io_return x) = io_return ()"
  by (simp add: effect_def io_bind_return)

lemma effect_bind:
  assumes "\<And>x. effect (f x) = k"
  shows "effect (io_bind m f) = io_bind (effect m) (\<lambda>u. k)"
proof -
  have "effect (io_bind m f) = io_bind m (\<lambda>x. effect (f x))"
    by (simp add: effect_def io_bind_assoc)
  also have "\<dots> = io_bind m (\<lambda>x. k)" by (simp add: assms)
  also have "\<dots> = io_bind (effect m) (\<lambda>u. k)"
    by (simp add: effect_def io_bind_assoc io_bind_return)
  finally show ?thesis .
qed

lemma effect_unit: "effect (m :: ('d, unit) io) = m"
  by (simp add: effect_def io_bind_unit)

lemma effect_isl: "isl (fst (effect m s)) = isl (fst (m s))"
  by (cases "m s") (auto simp: effect_def io_bind_def io_return_def split: sum.splits)

lemma run_steps_append:
  "run_steps e (xs @ ys) = io_bind (run_steps e xs) (\<lambda>u. run_steps e ys)"
  by (induction xs) (simp_all add: io_bind_return io_bind_assoc)

lemma run_steps_single: "run_steps e [st] = run_step e st"
  by (simp add: io_bind_unit)

lemma effect_Promise_all_map:
  assumes "\<And>x. effect (f x) = run_steps e (S x)"
  shows "effect (Promise_all_map f xs) = run_steps e (concat (map S xs))"
proof (induction xs)
  case Nil
  show ?case by (simp add: effect_return)
next
  case (Cons x xs)
  have inner: "effect (io_bind (Promise_all_map f xs) (\<lambda>ys. io_return (y # ys)))
      = run_steps e (concat (map S xs))" for y
    by (simp add: effect_bind [where k = "io_return ()"] effect_return Cons.IH io_bind_unit)
  have "effect (Promise_all_map f (x # xs))
      = io_bind (effect (f x)) (\<lambda>u. run_steps e (concat (map S xs)))"
    by (simp add: effect_bind [where k = "run_steps e (concat (map S xs))"] inner)
  then show ?case by (simp add: assms run_steps_append)
qed

text \<open>A run of steps fails exactly when one of the steps it starts fails.\<close>

lemma reached_failure:
  "(st, s1) \<in> set (steps_reached e sts s) \<Longrightarrow> isl (fst (run_step e st s1)) \<Longrightarrow>
   isl (fst (run_steps e sts s))"
proof (induction sts arbitrary: s)
  case Nil
  then show ?case by simp
next
  case (Cons a sts)
  show ?case
  proof (cases "run_step e a s")
    case (Pair r s')
    show ?thesis
    proof (cases r)
      case (Inl err)
      then show ?thesis using Pair by (simp add: io_bind_def)
    next
      case (Inr u)
      have "(st, s1) \<noteq> (a, s)" using Cons.prems(2) Pair Inr by auto
      then have "(st, s1) \<in> set (steps_reached e sts s')"
        using Cons.prems(1) Pair Inr by auto
      then have "isl (fst (run_steps e sts s'))" using Cons.prems(2) by (rule Cons.IH)
      then show ?thesis using Pair Inr by (simp add: io_bind_def)
    qed
  qed
qed

lemma failure_reached:
  "isl (fst (run_steps e sts s)) \<Longrightarrow>
   \<exists>st s1. (st, s1) \<in> set (steps_reached e sts s) \<and> isl (fst (run_step e st s1))"
proof (induction sts arbitrary: s)
  case Nil
  then show ?case by (simp add: io_return_def)
next
  case (Cons a sts)
  show ?case
  proof (cases "run_step e a s")
    case (Pair r s')
    show ?thesis
    proof (cases r)
      case (Inl err)
      then have "(a, s) \<in> set (steps_reached e (a # sts) s) \<and> isl (fst (run_step e a s))"
        using Pair by simp
      then show ?thesis by blast
    next
      case (Inr u)
      then have "isl (fst (run_steps e sts s'))" using Cons.prems Pair by (simp add: io_bind_def)
      from Cons.IH [OF this] obtain st s1 where
        "(st, s1) \<in> set (steps_reached e sts s')" "isl (fst (run_step e st s1))" by blast
      then have "(st, s1) \<in> set (steps_reached e (a # sts) s) \<and> isl (fst (run_step e st s1))"
        using Pair Inr by simp
      then show ?thesis by blast
    qed
  qed
qed

lemma fresh_none: "uuid_calls s \<le> uuid_calls s' \<Longrightarrow> fresh_ids e s s' []"
  by (simp add: fresh_ids_def)

lemma fresh_uuid:
  "fresh_ids e s (s\<lparr>uuid_calls := Suc (uuid_calls s)\<rparr>) [uuids e (uuid_calls s)]"
  by (simp add: fresh_ids_def)

lemma fresh_join:
  assumes inj: "inj (uuids e)"
    and xs: "fresh_ids e s s1 xs" and ys: "fresh_ids e s1 s2 ys"
    and zs: "mset zs = mset xs + mset ys"
  shows "fresh_ids e s s2 zs"
proof -
  have le: "uuid_calls s \<le> uuid_calls s1" "uuid_calls s1 \<le> uuid_calls s2"
    using xs ys by (simp_all add: fresh_ids_def)
  have sx: "set xs \<subseteq> uuids e ` {uuid_calls s..<uuid_calls s1}"
    and sy: "set ys \<subseteq> uuids e ` {uuid_calls s1..<uuid_calls s2}"
    using xs ys by (simp_all add: fresh_ids_def)
  have disj: "set xs \<inter> set ys = {}"
  proof (rule ccontr)
    assume "set xs \<inter> set ys \<noteq> {}"
    then obtain v where vx: "v \<in> set xs" and vy: "v \<in> set ys" by blast
    from vx sx obtain a where a: "v = uuids e a" "a < uuid_calls s1" by auto
    from vy sy obtain b where b: "v = uuids e b" "uuid_calls s1 \<le> b" by auto
    have "a = b" using inj a(1) b(1) by (simp add: inj_eq)
    then show False using a b by simp
  qed
  have "distinct (xs @ ys)" using xs ys disj by (simp add: fresh_ids_def)
  have m: "mset zs = mset (xs @ ys)" using zs by simp
  have d: "distinct zs"
    using mset_eq_imp_distinct_iff [OF m] \<open>distinct (xs @ ys)\<close> by simp
  have z: "set zs = set xs \<union> set ys"
    using mset_eq_setD [OF m] by simp
  have m1: "uuids e ` {uuid_calls s..<uuid_calls s1} \<subseteq> uuids e ` {uuid_calls s..<uuid_calls s2}"
    by (rule image_mono) (use le in simp)
  have m2: "uuids e ` {uuid_calls s1..<uuid_calls s2} \<subseteq> uuids e ` {uuid_calls s..<uuid_calls s2}"
    by (rule image_mono) (use le in simp)
  have x': "set xs \<subseteq> uuids e ` {uuid_calls s..<uuid_calls s2}"
    using sx m1 by (rule subset_trans)
  have y': "set ys \<subseteq> uuids e ` {uuid_calls s1..<uuid_calls s2} \<union> {}" using sy by simp
  have y'': "set ys \<subseteq> uuids e ` {uuid_calls s..<uuid_calls s2}"
    using sy m2 by (rule subset_trans)
  have "set zs \<subseteq> uuids e ` {uuid_calls s..<uuid_calls s2}"
    unfolding z using x' y'' by (rule Un_least)
  then show ?thesis using d le by (simp add: fresh_ids_def)
qed

lemma fresh_Promise_all_map:
  assumes inj: "inj (uuids e)"
    and f: "\<And>x y s s'. f x s = (Inr y, s') \<Longrightarrow> fresh_ids e s s' (I y)"
  shows "Promise_all_map f xs s = (Inr ys, s') \<Longrightarrow> fresh_ids e s s' (concat (map I ys))"
proof (induction xs arbitrary: s ys)
  case Nil
  then show ?case by (simp add: io_Inr fresh_none)
next
  case (Cons x xs)
  from Cons.prems obtain y s1 zs where
    y: "f x s = (Inr y, s1)" and zs: "Promise_all_map f xs s1 = (Inr zs, s')" and ys: "ys = y # zs"
    by (auto simp: io_Inr)
  have "fresh_ids e s s' (I y @ concat (map I zs))"
    using inj f [OF y] Cons.IH [OF zs] by (rule fresh_join) simp
  then show ?case using ys by simp
qed

lemmas run_defs = addDegree_def assembleDegree_def formatCourse_def formatChapter_def formatLesson_def
  thumbnail_url_def uploadThumbnail_def uploadFile_def uploadFile_in_def chapter_test_of_def
  final_test_of_def build_chapter_test_def createTestObject_def calculateTotalMarks_def
  questionData_of_def marks_or_1_def copy_point_def addDoc_def uploadBytes_def getDownloadURL_def
  uuidv4_def io_bind_def io_return_def io_throw_def io_catch_def folder_of_def fileType_of_def
  SUPPORTED_FILE_FOLDERS_def Object_prototype_members_def UnsupportedFileType_def
  env_ok_def world0_def sample_degree_def image_file_def pdf_file_def video_file_def quiz_def
  mcq_q_def typed_q_def Let_def

lemma inj_uuids_env_ok: "inj (uuids env_ok)"
  by (rule injI) (simp add: env_ok_def)

section \<open>Facts about the test object\<close>

lemma foldl_add_marks_shift:
  "foldl add_marks a qs = a + foldl add_marks 0 qs"
proof (induction qs arbitrary: a)
  case Nil
  show ?case by simp
next
  case (Cons q qs)
  have "foldl add_marks (add_marks a q) qs = add_marks a q + foldl add_marks 0 qs"
    by (rule Cons.IH)
  moreover have "foldl add_marks (add_marks 0 q) qs = add_marks 0 q + foldl add_marks 0 qs"
    by (rule Cons.IH)
  moreover have "add_marks a q = a + add_marks 0 q"
    by (cases q) simp_all
  ultimately show ?case by simp
qed

lemma build_chapter_test_result:
  "build_chapter_test e td s =
     (Inr \<lparr>testId = uuids e (uuid_calls s), test_title = td_title td, timeLimit = td_timeLimit td,
        test_type = td_type td, totalMarks = foldl add_marks 0 (map questionData_of (td_questions td)),
        questions = map questionData_of (td_questions td)\<rparr>,
      s\<lparr>uuid_calls := Suc (uuid_calls s)\<rparr>)"
  by (simp add: build_chapter_test_def createTestObject_def io_bind_def io_return_def uuidv4_def
      calculateTotalMarks_def)

lemma total_of_built_questions:
  "foldl add_marks 0 (map questionData_of qs) =
     sum_list (map (\<lambda>q. marks_or_1 (q_marks q)) (filter is_MCQ_spec qs))"
proof (induction qs)
  case Nil
  show ?case by simp
next
  case (Cons q qs)
  have "foldl add_marks 0 (map questionData_of (q # qs)) =
          add_marks 0 (questionData_of q) + foldl add_marks 0 (map questionData_of qs)"
    using foldl_add_marks_shift [of "add_marks 0 (questionData_of q)"] by simp
  moreover have "add_marks 0 (questionData_of q) =
      (if is_MCQ_spec q then marks_or_1 (q_marks q) else 0)"
    by (simp add: questionData_of_def is_MCQ_spec_def)
  ultimately show ?case using Cons.IH by simp
qed

lemma sum_of_unit_marks:
  "\<forall>q\<in>set qs. is_MCQ_spec q \<longrightarrow> q_marks q \<in> {None, Some 0, Some 1} \<Longrightarrow>
   sum_list (map (\<lambda>q. marks_or_1 (q_marks q)) (filter is_MCQ_spec qs)) =
     int (length (filter is_MCQ_spec qs))"
  by (induction qs) (auto simp: marks_or_1_def)

text \<open>
  Claim C7, amended. A test built on the chapter path (\<^verbatim>\<open>createTestObject\<close> followed by
  \<^verbatim>\<open>calculateTotalMarks\<close>) always gets built, and its \<^verbatim>\<open>totalMarks\<close> is the sum,
  over the \<^verbatim>\<open>MCQ\<close> questions of the authored test, of the authored marks, where an
  absent mark and the mark 0 count as 1; typed questions and questions of any other type
  add nothing. It is the number of \<^verbatim>\<open>MCQ\<close> questions whenever every \<^verbatim>\<open>MCQ\<close>
  question has the mark 1, the mark 0 or no mark.
\<close>

theorem total_marks_of_chapter_test:
  "\<exists>t s'. build_chapter_test e td s = (Inr t, s') \<and>
     totalMarks t = sum_list (map (\<lambda>q. marks_or_1 (q_marks q)) (filter is_MCQ_spec (td_questions td))) \<and>
     ((\<forall>q\<in>set (td_questions td). is_MCQ_spec q \<longrightarrow> q_marks q \<in> {None, Some 0, Some 1}) \<longrightarrow>
        totalMarks t = int (mcq_count td))"
  by (simp add: build_chapter_test_result total_of_built_questions sum_of_unit_marks mcq_count_def)

text \<open>An authored test with one unmarked \<^verbatim>\<open>MCQ\<close> question and one typed question:
  \<^verbatim>\<open>totalMarks\<close> is 1, the number of \<^verbatim>\<open>MCQ\<close> questions.\<close>

theorem total_marks_of_chapter_test_witness:
  "map_sum id totalMarks
        (fst (build_chapter_test env_ok (quiz [mcq_q ''q1'' (Str ''a'') None, typed_q ''q2''])
           (world0 :: unit world))) = Inr 1
   \<and> mcq_count (quiz [mcq_q ''q1'' (Str ''a'') None, typed_q ''q2'']) = 1"
proof -
  let ?td = "quiz [mcq_q ''q1'' (Str ''a'') None, typed_q ''q2'']"
  have h: "\<forall>q\<in>set (td_questions ?td). is_MCQ_spec q \<longrightarrow> q_marks q \<in> {None, Some 0, Some 1}"
    by (simp add: quiz_def mcq_q_def typed_q_def is_MCQ_spec_def)
  have c: "mcq_count ?td = 1"
    by (simp add: mcq_count_def quiz_def mcq_q_def typed_q_def is_MCQ_spec_def)
  obtain t s' where r: "build_chapter_test env_ok ?td (world0 :: unit world) = (Inr t, s')"
    and m: "totalMarks t = int (mcq_count ?td)"
    using total_marks_of_chapter_test [of env_ok ?td "world0 :: unit world"] h by blast
  show ?thesis using c r m by simp
qed

text \<open>
  Claim C7 as stated fails: one \<^verbatim>\<open>MCQ\<close> question authored with 2 marks gives
  \<^verbatim>\<open>totalMarks\<close> 2, and the test has one \<^verbatim>\<open>MCQ\<close> question.
\<close>

theorem total_marks_not_mcq_count:
  "map_sum id totalMarks (fst (build_chapter_test env_ok (quiz [mcq_q ''q1'' (Str ''a'') (Some 2)]) (world0 :: unit world))) = Inr 2
   \<and> mcq_count (quiz [mcq_q ''q1'' (Str ''a'') (Some 2)]) = 1"
  by (simp add: build_chapter_test_result quiz_def mcq_q_def questionData_of_def marks_or_1_def mcq_count_def is_MCQ_spec_def)

text \<open>The loop of \<^verbatim>\<open>calculateUserMarks\<close> from any index and any running total.\<close>

lemma loop_no_award:
  "index + length qs \<le> length uas \<Longrightarrow>
   \<forall>j<length qs. \<not> mcq_hit (qs ! j) (uas ! (index + j)) \<and> \<not> typed_validated (qs ! j) (uas ! (index + j)) \<Longrightarrow>
   userMarks_loop uas qs index userTotal = Inr userTotal"
proof (induction qs arbitrary: index)
  case Nil
  show ?case by simp
next
  case (Cons q qs)
  have here: "\<not> mcq_hit q (uas ! index) \<and> \<not> typed_validated q (uas ! index)"
    using Cons.prems(2) by force
  have rest: "\<forall>j<length qs. \<not> mcq_hit (qs ! j) (uas ! (Suc index + j)) \<and>
      \<not> typed_validated (qs ! j) (uas ! (Suc index + j))"
    using Cons.prems(2) by force
  have len: "Suc index + length qs \<le> length uas" and inb: "index < length uas"
    using Cons.prems(1) by simp_all
  have "userMarks_loop uas qs (Suc index) userTotal = Inr userTotal"
    by (rule Cons.IH [OF len rest])
  then show ?case using here inb by (cases q) simp_all
qed

lemma loop_one_award:
  "index + length qs \<le> length uas \<Longrightarrow> k < length qs \<Longrightarrow>
   mcq_hit (qs ! k) (uas ! (index + k)) \<Longrightarrow>
   \<forall>j<length qs. j \<noteq> k \<longrightarrow> \<not> mcq_hit (qs ! j) (uas ! (index + j)) \<and> \<not> typed_validated (qs ! j) (uas ! (index + j)) \<Longrightarrow>
   userMarks_loop uas qs index userTotal = Inr (userTotal + marks (qs ! k))"
proof (induction qs arbitrary: index k)
  case Nil
  then show ?case by simp
next
  case (Cons q qs)
  have len: "Suc index + length qs \<le> length uas" and inb: "index < length uas"
    using Cons.prems(1) by simp_all
  show ?case
  proof (cases k)
    case 0
    have rest: "\<forall>j<length qs. \<not> mcq_hit (qs ! j) (uas ! (Suc index + j)) \<and>
        \<not> typed_validated (qs ! j) (uas ! (Suc index + j))"
    proof (intro allI impI)
      fix j assume "j < length qs"
      then show "\<not> mcq_hit (qs ! j) (uas ! (Suc index + j)) \<and>
        \<not> typed_validated (qs ! j) (uas ! (Suc index + j))"
        using Cons.prems(4) [rule_format, of "Suc j"] 0 by simp
    qed
    have hit: "mcq_hit q (uas ! index)" using Cons.prems(3) 0 by simp
    show ?thesis using hit inb 0 loop_no_award [OF len rest]
      by (cases q) simp_all
  next
    case (Suc k')
    have here: "\<not> mcq_hit q (uas ! index) \<and> \<not> typed_validated q (uas ! index)"
      using Cons.prems(4) [rule_format, of 0] Suc by simp
    have rest: "\<forall>j<length qs. j \<noteq> k' \<longrightarrow> \<not> mcq_hit (qs ! j) (uas ! (Suc index + j)) \<and>
        \<not> typed_validated (qs ! j) (uas ! (Suc index + j))"
    proof (intro allI impI)
      fix j assume "j < length qs" "j \<noteq> k'"
      then show "\<not> mcq_hit (qs ! j) (uas ! (Suc index + j)) \<and>
        \<not> typed_validated (qs ! j) (uas ! (Suc index + j))"
        using Cons.prems(4) [rule_format, of "Suc j"] Suc by simp
    qed
    have k': "k' < length qs" using Cons.prems(2) Suc by simp
    have hit: "mcq_hit (qs ! k') (uas ! (Suc index + k'))" using Cons.prems(3) Suc by simp
    have "userMarks_loop uas qs (Suc index) userTotal = Inr (userTotal + marks (qs ! k'))"
      by (rule Cons.IH [OF len k' hit rest])
    then show ?thesis using here inb Suc by (cases q) simp_all
  qed
qed

text \<open>
  Claim C9. For a test and a list of answers of the same length, taken in the same order:
  \<^verbatim>\<open>calculateUserMarks\<close> returns 0 when no answer to an \<^verbatim>\<open>MCQ\<close> question equals its
  \<^verbatim>\<open>correctAnswer\<close> and no answer to a \<^verbatim>\<open>Typed\<close> question is validated; and when
  the answer to one \<^verbatim>\<open>MCQ\<close> question equals its \<^verbatim>\<open>correctAnswer\<close> and no other answer
  matches or is validated, it returns the marks of that question. The statement holds for
  every test record, so for every built one.
\<close>

theorem score_zero_or_single_hit:
  assumes "length uas = length (questions t)"
  shows "((\<forall>i<length (questions t). \<not> mcq_hit (questions t ! i) (uas ! i) \<and>
             \<not> typed_validated (questions t ! i) (uas ! i)) \<longrightarrow>
            calculateUserMarks t uas = Inr 0)
       \<and> (\<forall>k<length (questions t). mcq_hit (questions t ! k) (uas ! k) \<and>
            (\<forall>i<length (questions t). i \<noteq> k \<longrightarrow> \<not> mcq_hit (questions t ! i) (uas ! i) \<and>
               \<not> typed_validated (questions t ! i) (uas ! i)) \<longrightarrow>
            calculateUserMarks t uas = Inr (marks (questions t ! k)))"
proof (intro conjI allI impI)
  assume "\<forall>i<length (questions t). \<not> mcq_hit (questions t ! i) (uas ! i) \<and>
             \<not> typed_validated (questions t ! i) (uas ! i)"
  then show "calculateUserMarks t uas = Inr 0"
    using loop_no_award [of 0 "questions t" uas 0] assms by (simp add: calculateUserMarks_def)
next
  fix k
  assume k: "k < length (questions t)"
    and h: "mcq_hit (questions t ! k) (uas ! k) \<and>
            (\<forall>i<length (questions t). i \<noteq> k \<longrightarrow> \<not> mcq_hit (questions t ! i) (uas ! i) \<and>
               \<not> typed_validated (questions t ! i) (uas ! i))"
  show "calculateUserMarks t uas = Inr (marks (questions t ! k))"
    using loop_one_award [of 0 "questions t" uas k 0] assms k h by (simp add: calculateUserMarks_def)
qed

text \<open>The sample test (an \<^verbatim>\<open>MCQ\<close> question worth 2 marks and a typed question) scored
  against a matching and against a wrong answer.\<close>

theorem score_zero_or_single_hit_witness:
  "length [\<lparr>ua_answer = Str ''a'', isValidated = False\<rparr>, \<lparr>ua_answer = Str ''x'', isValidated = False\<rparr>]
     = length (questions sample_test)
   \<and> calculateUserMarks sample_test
       [\<lparr>ua_answer = Str ''a'', isValidated = False\<rparr>, \<lparr>ua_answer = Str ''x'', isValidated = False\<rparr>] = Inr 2
   \<and> calculateUserMarks sample_test
       [\<lparr>ua_answer = Str ''b'', isValidated = False\<rparr>, \<lparr>ua_answer = Str ''x'', isValidated = False\<rparr>] = Inr 0"
proof -
  let ?hit = "[\<lparr>ua_answer = Str ''a'', isValidated = False\<rparr>, \<lparr>ua_answer = Str ''x'', isValidated = False\<rparr>]"
  let ?miss = "[\<lparr>ua_answer = Str ''b'', isValidated = False\<rparr>, \<lparr>ua_answer = Str ''x'', isValidated = False\<rparr>]"
  have qs: "questions sample_test =
      [MCQ_data ''q1'' [''a'', ''b''] (Str ''a'') 2 Null, Typed_data ''q2'' ''ref'' 0 (Str [])]"
    by (simp add: sample_test_def calculateTotalMarks_def questionData_of_def mcq_q_def
        typed_q_def marks_or_1_def)
  have l1: "length ?hit = length (questions sample_test)" by (simp add: qs)
  have l2: "length ?miss = length (questions sample_test)" by (simp add: qs)
  have a: "calculateUserMarks sample_test ?hit = Inr (marks (questions sample_test ! 0))"
    using score_zero_or_single_hit [OF l1] by (simp add: qs less_Suc_eq)
  have b: "calculateUserMarks sample_test ?miss = Inr 0"
    using score_zero_or_single_hit [OF l2] by (simp add: qs less_Suc_eq)
  show ?thesis using l1 a b by (simp add: qs)
qed

text \<open>On the chapter path the total is the sum of the marks, for every authored test.\<close>

lemma built_chapter_test_total:
  "build_chapter_test e td s = (Inr t, s') \<Longrightarrow> totalMarks t = sum_of_marks t"
proof -
  have "foldl add_marks 0 qs = sum_list (map marks_of qs)" for qs
  proof (induction qs rule: rev_induct)
    case Nil
    show ?case by simp
  next
    case (snoc q qs)
    then show ?case by (cases q) simp_all
  qed
  then show "build_chapter_test e td s = (Inr t, s') \<Longrightarrow> totalMarks t = sum_of_marks t"
    by (auto simp: build_chapter_test_result sum_of_marks_def)
qed

text \<open>On the final-test path the total is never computed: it is 0 for every authored
  test.\<close>

lemma final_test_total_zero:
  "final_test_of e (Some td) s = (Inr ft, s') \<Longrightarrow> map_option totalMarks ft = Some 0"
  by (auto simp: final_test_of_def createTestObject_def io_Inr)

text \<open>On the edit path no test is ever rebuilt: \<^verbatim>\<open>updateTest\<close> raises on every input.\<close>

lemma updateTest_throws:
  "updateTest e tid td s = (Inl (TypeError ''testObject.calculateTotalMarks is not a function''), s)"
  by (simp add: updateTest_def Let_def io_bind_def io_throw_def)

section \<open>Facts about the asset uploader\<close>

text \<open>
  Claim C6 fails in degreeApi.js. The object store accepts the bytes of the video and the
  media element reports an error, yet \<^verbatim>\<open>uploadFile\<close> fails: the call of the undefined
  \<^verbatim>\<open>getMediaDuration\<close> raises, and the \<^verbatim>\<open>catch\<close> block turns that into
  \<^verbatim>\<open>File upload failed\<close>. The object stays in the bucket.
\<close>

theorem uploadFile_video_fails:
  "uploadFile env_ok video_file (world0 :: unit world) =
     (Inl (Error ''File upload failed''),
      \<lparr>uuid_calls = 1, bucket = [(''videos/u_welcome.mp4'', video_file)], degrees = []\<rparr>)
   \<and> media_probe env_ok video_file = MediaError"
  by (simp add: run_defs)

text \<open>In degreeApi.js the upload of a video or audio file fails in every world.\<close>

lemma uploadFile_media_always_fails:
  assumes "fileType_of f = ''video'' \<or> fileType_of f = ''audio''"
  shows "fst (uploadFile e f s) = Inl (Error ''File upload failed'')"
proof -
  have "folder_of (fileType_of f) \<noteq> None"
    using assms by (auto simp: folder_of_def SUPPORTED_FILE_FOLDERS_def)
  then obtain folder where "folder_of (fileType_of f) = Some folder" by blast
  then show ?thesis using assms
    by (auto simp: uploadFile_def uploadFile_in_def Let_def io_catch_def io_bind_def io_throw_def
        io_return_def uuidv4_def uploadBytes_def getDownloadURL_def split: option.splits)
qed

text \<open>
  Variant 3, which defines \<^verbatim>\<open>getMediaDuration\<close>, does what claim C6 says: when the
  store accepts the bytes and the media element reports an error, \<^verbatim>\<open>uploadFile\<close>
  returns the asset with duration \<^verbatim>\<open>null\<close>.
\<close>

lemma uploadFile_v3_duration_null:
  assumes "fileType_of f = ''video'' \<or> fileType_of f = ''audio''"
    and "folder_of (fileType_of f) = Some folder"
    and "uploadBytes_ok e (folder @ ''/'' @ uuids e (uuid_calls s) @ ''_'' @ file_name f)"
    and "downloadURL e (folder @ ''/'' @ uuids e (uuid_calls s) @ ''_'' @ file_name f) = Some u"
    and "media_probe e f = MediaError"
  shows "uploadFile_v3 e f s =
     (Inr \<lparr>asset_url = u, asset_type = fileType_of f, asset_name = file_name f, duration = None\<rparr>,
      s\<lparr>uuid_calls := Suc (uuid_calls s),
        bucket := bucket s @ [(folder @ ''/'' @ uuids e (uuid_calls s) @ ''_'' @ file_name f, f)]\<rparr>)"
  using assms
  by (auto simp: uploadFile_v3_def uploadFile_in_def Let_def io_bind_def io_catch_def io_return_def
      uuidv4_def uploadBytes_def getDownloadURL_def getMediaDuration_def)

text \<open>
  Claim C8 as stated fails: for a PDF (\<^verbatim>\<open>application/pdf\<close>, category
  \<^verbatim>\<open>application\<close>) the error that reaches the caller is the generic
  \<^verbatim>\<open>File upload failed\<close> of the \<^verbatim>\<open>catch\<close> block, not the unsupported-type error
  thrown on line 21; it is the error that a refused write of a supported file gives too.
\<close>

theorem uploadFile_unsupported_generic_error:
  "fst (uploadFile env_ok pdf_file (world0 :: unit world)) = Inl (Error ''File upload failed'')
   \<and> Error ''File upload failed'' \<noteq> UnsupportedFileType pdf_file
   \<and> fst (uploadFile env_store_down image_file (world0 :: unit world)) = Inl (Error ''File upload failed'')"
  by (simp add: run_defs env_store_down_def)

lemma folder_of_None:
  "folder_of c = None \<longleftrightarrow>
     c \<notin> {''video'', ''audio'', ''image'', ''document'', ''pdf'', ''ppt''} \<and>
     c \<notin> set Object_prototype_members"
  by (simp add: folder_of_def SUPPORTED_FILE_FOLDERS_def split: option.split)

text \<open>
  Claim C8, amended. For every file whose category (the text of its content type before
  the first slash) is none of \<^verbatim>\<open>video\<close>, \<^verbatim>\<open>audio\<close>, \<^verbatim>\<open>image\<close>, \<^verbatim>\<open>document\<close>,
  \<^verbatim>\<open>pdf\<close>, \<^verbatim>\<open>ppt\<close> and is not the name of a member that the folder table inherits
  from \<^verbatim>\<open>Object.prototype\<close>, \<^verbatim>\<open>uploadFile\<close> fails with the error
  \<^verbatim>\<open>File upload failed\<close> and leaves the world as it was: nothing is written to the
  object store.
\<close>

theorem uploadFile_unsupported_no_write:
  assumes "fileType_of f \<notin> {''video'', ''audio'', ''image'', ''document'', ''pdf'', ''ppt''}"
    and "fileType_of f \<notin> set Object_prototype_members"
  shows "uploadFile e f s = (Inl (Error ''File upload failed''), s)"
proof -
  have "folder_of (fileType_of f) = None" using assms by (simp add: folder_of_None)
  then show ?thesis
    by (simp add: uploadFile_def uploadFile_in_def Let_def io_catch_def io_throw_def)
qed

text \<open>The PDF again: the upload fails and the bucket stays empty.\<close>

theorem uploadFile_unsupported_no_write_witness:
  "uploadFile env_ok pdf_file (world0 :: unit world) = (Inl (Error ''File upload failed''), world0)
   \<and> bucket (snd (uploadFile env_ok pdf_file (world0 :: unit world))) = []"
proof -
  have a: "fileType_of pdf_file \<notin> {''video'', ''audio'', ''image'', ''document'', ''pdf'', ''ppt''}"
    by (simp add: fileType_of_def pdf_file_def)
  have b: "fileType_of pdf_file \<notin> set Object_prototype_members"
    by (simp add: fileType_of_def pdf_file_def Object_prototype_members_def)
  show ?thesis using uploadFile_unsupported_no_write [OF a b, of env_ok "world0 :: unit world"]
    by (simp add: world0_def)
qed

text \<open>
  A category that names an inherited member passes the check \<^verbatim>\<open>if (!folder)\<close>, and the
  file is written under the text of that member.
\<close>

lemma uploadFile_inherited_member_writes:
  "uploadFile env_ok \<lparr>file_type = ''constructor/x'', file_name = ''x.bin''\<rparr> (world0 :: unit world) =
     (Inr \<lparr>asset_url = ''https://store/function Object() { [native code] }/u_x.bin'',
            asset_type = ''constructor'', asset_name = ''x.bin'', duration = None\<rparr>,
      \<lparr>uuid_calls = 1,
       bucket = [(''function Object() { [native code] }/u_x.bin'',
                  \<lparr>file_type = ''constructor/x'', file_name = ''x.bin''\<rparr>)],
       degrees = []\<rparr>)"
  by (simp add: run_defs inherited_text_def)

lemma uploadFile_mono:
  "uploadFile e f s = (Inr a, s') \<Longrightarrow> uuid_calls s \<le> uuid_calls s'"
  by (auto simp: uploadFile_def uploadFile_in_def Let_def io_Inr uploadBytes_Inr getDownloadURL_Inr
      split: option.splits if_splits)

lemma thumbnail_url_mono:
  "thumbnail_url e t s = (Inr u, s') \<Longrightarrow> uuid_calls s \<le> uuid_calls s'"
  by (auto simp: thumbnail_url_def uploadThumbnail_def Let_def io_Inr uploadBytes_Inr
      getDownloadURL_Inr split: option.splits)

section \<open>Facts about the assembler\<close>

lemma keeps_uploadFile: "keeps_degrees (uploadFile e f)"
  unfolding uploadFile_def uploadFile_in_def Let_def
  by (auto intro!: keeps_intros split: option.split)

lemma keeps_uploadThumbnail: "keeps_degrees (uploadThumbnail e f)"
  unfolding uploadThumbnail_def Let_def
  by (auto intro!: keeps_intros)

lemma keeps_thumbnail_url: "keeps_degrees (thumbnail_url e t)"
  unfolding thumbnail_url_def
  by (auto intro!: keeps_intros keeps_uploadThumbnail split: option.split)

lemma keeps_createTestObject: "keeps_degrees (createTestObject e td)"
  unfolding createTestObject_def by (auto intro!: keeps_intros)

lemma keeps_build_chapter_test: "keeps_degrees (build_chapter_test e td)"
  unfolding build_chapter_test_def by (auto intro!: keeps_intros keeps_createTestObject)

lemma keeps_chapter_test_of: "keeps_degrees (chapter_test_of e t)"
  unfolding chapter_test_of_def
  by (auto intro!: keeps_intros keeps_build_chapter_test split: option.split)

lemma keeps_final_test_of: "keeps_degrees (final_test_of e t)"
  unfolding final_test_of_def
  by (auto intro!: keeps_intros keeps_createTestObject split: option.split)

lemma keeps_formatLesson: "keeps_degrees (formatLesson e l)"
  unfolding formatLesson_def by (auto intro!: keeps_intros keeps_uploadFile)

lemma keeps_formatChapter: "keeps_degrees (formatChapter e c)"
  unfolding formatChapter_def
  by (auto intro!: keeps_intros keeps_formatLesson keeps_chapter_test_of)

lemma keeps_formatCourse: "keeps_degrees (formatCourse e c)"
  unfolding formatCourse_def
  by (auto intro!: keeps_intros keeps_formatChapter keeps_thumbnail_url keeps_final_test_of)

lemma keeps_assembleDegree: "keeps_degrees (assembleDegree e d)"
  unfolding assembleDegree_def
  by (auto intro!: keeps_intros keeps_formatCourse keeps_thumbnail_url)

lemma addDegree_cases:
  "addDegree e d s =
     (case assembleDegree e d s of
        (Inl err, s1) \<Rightarrow> (Inl (Error ''Degree saving failed''), s1)
      | (Inr g, s1) \<Rightarrow>
          if firestore_ok e
          then (Inr (degreeId g), s1\<lparr>degrees := degrees s1 @ [(autoIds e (length (degrees s1)), g)]\<rparr>)
          else (Inl (Error ''Degree saving failed''), s1))"
  by (simp add: addDegree_def io_catch_def io_bind_def io_return_def io_throw_def addDoc_def
      split: prod.split sum.split)

lemma addDegree_Inr:
  assumes "addDegree e d s = (Inr i, s')"
  shows "\<exists>g s1. assembleDegree e d s = (Inr g, s1) \<and> i = degreeId g \<and>
           uuid_calls s' = uuid_calls s1 \<and>
           degrees s' = degrees s @ [(autoIds e (length (degrees s)), g)]"
proof (cases "assembleDegree e d s")
  case (Pair r s1)
  have frame: "degrees s1 = degrees s"
    using keeps_degreesD [OF keeps_assembleDegree, of e d s] Pair by simp
  show ?thesis using assms Pair frame
    by (cases r) (auto simp: addDegree_cases split: if_splits)
qed

lemma formatChapter_Inr:
  "formatChapter e ch s = (Inr c, s') \<Longrightarrow>
     \<exists>ls s1 tst s2. Promise_all_map (formatLesson e) (ch_lessons ch) s = (Inr ls, s1) \<and>
       chapter_test_of e (ch_test ch) s1 = (Inr tst, s2) \<and>
       s' = s2\<lparr>uuid_calls := Suc (uuid_calls s2)\<rparr> \<and>
       c = \<lparr>chapterId = uuids e (uuid_calls s2), chapterTitle = ch_title ch,
         chapter_description = (case ch_description ch of None \<Rightarrow> [] | Some d \<Rightarrow> d),
         chapter_test = tst, lessons = ls\<rparr>"
  unfolding formatChapter_def io_Inr by blast

lemma formatCourse_Inr:
  "formatCourse e co s = (Inr c, s') \<Longrightarrow>
     \<exists>th s1 chs s2 ft. thumbnail_url e (co_thumbnail co) s = (Inr th, s1) \<and>
       Promise_all_map (formatChapter e) (co_chapters co) s1 = (Inr chs, s2) \<and>
       final_test_of e (co_finalTest co) (s2\<lparr>uuid_calls := Suc (uuid_calls s2)\<rparr>) = (Inr ft, s') \<and>
       c = \<lparr>courseId = uuids e (uuid_calls s2), courseTitle = co_title co,
         course_description = co_description co, course_thumbnail = th,
         price = co_price co, chapters = chs, finalTest = ft,
         course_overviewPoints = map copy_point (co_overviewPoints co)\<rparr>"
  unfolding formatCourse_def io_Inr by blast

lemma assembleDegree_Inr:
  "assembleDegree e d s = (Inr g, s') \<Longrightarrow>
     \<exists>th s1 cs s2. thumbnail_url e (dd_thumbnail d) s = (Inr th, s1) \<and>
       Promise_all_map (formatCourse e) (dd_courses d) s1 = (Inr cs, s2) \<and>
       s' = s2\<lparr>uuid_calls := Suc (uuid_calls s2)\<rparr> \<and>
       g = \<lparr>degreeId = uuids e (uuid_calls s2), degreeTitle = dd_name d,
         degree_description = dd_description d, degree_thumbnail = th,
         degree_overviewPoints = map copy_point (dd_overviewPoints d),
         courses = cs, createdAt = now e, updatedAt = None\<rparr>"
  unfolding assembleDegree_def io_Inr by blast

text \<open>Each part of the assembler has the effect of running its list of steps.\<close>

lemma effect_thumbnail_url: "effect (thumbnail_url e t) = run_steps e (thumbnail_steps t)"
  by (cases t)
    (simp_all add: thumbnail_url_def thumbnail_steps_def effect_return
      effect_bind [where k = "io_return ()"] io_bind_unit)

lemma effect_chapter_test_of:
  "effect (chapter_test_of e t) = run_steps e (case t of None \<Rightarrow> [] | Some td \<Rightarrow> [ChapterTest td])"
  by (cases t)
    (simp_all add: chapter_test_of_def effect_return effect_bind [where k = "io_return ()"]
      io_bind_unit)

lemma effect_final_test_of:
  "effect (final_test_of e t) = run_steps e (case t of None \<Rightarrow> [] | Some td \<Rightarrow> [FinalTest td])"
  by (cases t)
    (simp_all add: final_test_of_def effect_return effect_bind [where k = "io_return ()"]
      io_bind_unit)

lemma effect_formatLesson: "effect (formatLesson e l) = run_steps e (lesson_steps l)"
proof -
  have a: "effect (io_bind (uuidv4 e) (\<lambda>lid. io_return
      \<lparr>lessonId = lid, lessonTitle = ls_title l, lesson_file = m\<rparr>)) = run_steps e [NewId]" for m
    by (simp add: effect_bind [where k = "io_return ()"] effect_return)
  show ?thesis
    unfolding formatLesson_def lesson_steps_def
    by (simp add: effect_bind [where k = "run_steps e [NewId]"] a)
qed

lemma effect_formatChapter: "effect (formatChapter e ch) = run_steps e (chapter_steps ch)"
proof -
  have c: "effect (io_bind (uuidv4 e) (\<lambda>cid. io_return
      \<lparr>chapterId = cid, chapterTitle = ch_title ch,
       chapter_description = (case ch_description ch of None \<Rightarrow> [] | Some d \<Rightarrow> d),
       chapter_test = tst, lessons = ls\<rparr>)) = run_steps e [NewId]" for tst ls
    by (simp add: effect_bind [where k = "io_return ()"] effect_return)
  have b: "effect (io_bind (chapter_test_of e (ch_test ch)) (\<lambda>tst.
      io_bind (uuidv4 e) (\<lambda>cid. io_return
      \<lparr>chapterId = cid, chapterTitle = ch_title ch,
       chapter_description = (case ch_description ch of None \<Rightarrow> [] | Some d \<Rightarrow> d),
       chapter_test = tst, lessons = ls\<rparr>)))
      = run_steps e ((case ch_test ch of None \<Rightarrow> [] | Some td \<Rightarrow> [ChapterTest td]) @ [NewId])" for ls
    by (simp only: effect_bind [where k = "run_steps e [NewId]", OF c] effect_chapter_test_of
        run_steps_append)
  show ?thesis
    unfolding formatChapter_def chapter_steps_def
    by (simp only: effect_bind [where k = "run_steps e ((case ch_test ch of None \<Rightarrow> []
          | Some td \<Rightarrow> [ChapterTest td]) @ [NewId])", OF b]
        effect_Promise_all_map [where S = lesson_steps, OF effect_formatLesson] run_steps_append)
qed

lemma effect_formatCourse: "effect (formatCourse e co) = run_steps e (course_steps co)"
proof -
  let ?ft = "case co_finalTest co of None \<Rightarrow> [] | Some td \<Rightarrow> [FinalTest td]"
  have d: "effect (io_bind (final_test_of e (co_finalTest co)) (\<lambda>ft. io_return
      \<lparr>courseId = cid, courseTitle = co_title co,
       course_description = co_description co, course_thumbnail = th,
       price = co_price co, chapters = chs, finalTest = ft,
       course_overviewPoints = map copy_point (co_overviewPoints co)\<rparr>))
      = run_steps e ?ft" for cid th chs
    by (simp add: effect_bind [where k = "io_return ()"] effect_return effect_final_test_of
        io_bind_unit)
  have c: "effect (io_bind (uuidv4 e) (\<lambda>cid.
      io_bind (final_test_of e (co_finalTest co)) (\<lambda>ft. io_return
      \<lparr>courseId = cid, courseTitle = co_title co,
       course_description = co_description co, course_thumbnail = th,
       price = co_price co, chapters = chs, finalTest = ft,
       course_overviewPoints = map copy_point (co_overviewPoints co)\<rparr>)))
      = run_steps e ([NewId] @ ?ft)" for th chs
    by (simp only: effect_bind [where k = "run_steps e ?ft", OF d] run_steps_append
        run_steps_single run_step.simps effect_unit)
  have b: "effect (io_bind (Promise_all_map (formatChapter e) (co_chapters co)) (\<lambda>chs.
      io_bind (uuidv4 e) (\<lambda>cid.
      io_bind (final_test_of e (co_finalTest co)) (\<lambda>ft. io_return
      \<lparr>courseId = cid, courseTitle = co_title co,
       course_description = co_description co, course_thumbnail = th,
       price = co_price co, chapters = chs, finalTest = ft,
       course_overviewPoints = map copy_point (co_overviewPoints co)\<rparr>))))
      = run_steps e (concat (map chapter_steps (co_chapters co)) @ [NewId] @ ?ft)" for th
    by (simp only: effect_bind [where k = "run_steps e ([NewId] @ ?ft)", OF c]
        effect_Promise_all_map [where S = chapter_steps, OF effect_formatChapter] run_steps_append)
  show ?thesis
    unfolding formatCourse_def course_steps_def
    by (simp only: effect_bind [where k = "run_steps e (concat (map chapter_steps (co_chapters co))
          @ [NewId] @ ?ft)", OF b] effect_thumbnail_url run_steps_append)
qed

lemma effect_assembleDegree: "effect (assembleDegree e d) = run_steps e (degree_steps d)"
proof -
  have c: "effect (io_bind (uuidv4 e) (\<lambda>did. io_return
      \<lparr>degreeId = did, degreeTitle = dd_name d,
       degree_description = dd_description d, degree_thumbnail = th,
       degree_overviewPoints = map copy_point (dd_overviewPoints d),
       courses = cs, createdAt = now e, updatedAt = None\<rparr>)) = run_steps e [NewId]" for th cs
    by (simp add: effect_bind [where k = "io_return ()"] effect_return)
  have b: "effect (io_bind (Promise_all_map (formatCourse e) (dd_courses d)) (\<lambda>cs.
      io_bind (uuidv4 e) (\<lambda>did. io_return
      \<lparr>degreeId = did, degreeTitle = dd_name d,
       degree_description = dd_description d, degree_thumbnail = th,
       degree_overviewPoints = map copy_point (dd_overviewPoints d),
       courses = cs, createdAt = now e, updatedAt = None\<rparr>)))
      = run_steps e (concat (map course_steps (dd_courses d)) @ [NewId])" for th
    by (simp only: effect_bind [where k = "run_steps e [NewId]", OF c]
        effect_Promise_all_map [where S = course_steps, OF effect_formatCourse] run_steps_append)
  show ?thesis
    unfolding assembleDegree_def degree_steps_def
    by (simp only: effect_bind [where k = "run_steps e (concat (map course_steps (dd_courses d))
          @ [NewId])", OF b] effect_thumbnail_url run_steps_append)
qed

text \<open>The assembly fails exactly when a step that is started fails, and a step that fails
  is a thumbnail upload or a file upload. Every thumbnail and every lesson file of the input
  has its step.\<close>

lemma assembleDegree_fails_iff:
  "isl (fst (assembleDegree e d s)) \<longleftrightarrow>
     (\<exists>st s1. (st, s1) \<in> set (steps_reached e (degree_steps d) s) \<and> isl (fst (run_step e st s1)))"
proof -
  have "isl (fst (assembleDegree e d s)) = isl (fst (run_steps e (degree_steps d) s))"
    using effect_isl [of "assembleDegree e d" s] by (simp add: effect_assembleDegree)
  then show ?thesis using reached_failure failure_reached by blast
qed

lemma failing_step_is_upload:
  "isl (fst (run_step e st s)) \<Longrightarrow>
   (\<exists>f. st = UploadThumbnail f \<and> isl (fst (uploadThumbnail e f s))) \<or>
   (\<exists>f. st = UploadFile f \<and> isl (fst (uploadFile e f s)))"
  by (cases st)
    (simp_all add: effect_isl build_chapter_test_result,
     simp_all add: uuidv4_def createTestObject_def io_bind_def io_return_def)

lemma thumbnail_step_in: "t = Some f \<Longrightarrow> UploadThumbnail f \<in> set (thumbnail_steps t)"
  by (simp add: thumbnail_steps_def)

lemma course_steps_in: "co \<in> set (dd_courses d) \<Longrightarrow> set (course_steps co) \<subseteq> set (degree_steps d)"
  by (auto simp: degree_steps_def)

lemma chapter_steps_in: "ch \<in> set (co_chapters co) \<Longrightarrow> set (chapter_steps ch) \<subseteq> set (course_steps co)"
  by (auto simp: course_steps_def)

lemma lesson_steps_in: "l \<in> set (ch_lessons ch) \<Longrightarrow> set (lesson_steps l) \<subseteq> set (chapter_steps ch)"
  by (auto simp: chapter_steps_def)

lemma degree_steps_cover:
  "(dd_thumbnail d = Some f \<longrightarrow> UploadThumbnail f \<in> set (degree_steps d)) \<and>
   (co \<in> set (dd_courses d) \<and> co_thumbnail co = Some f \<longrightarrow>
      UploadThumbnail f \<in> set (degree_steps d)) \<and>
   (co \<in> set (dd_courses d) \<and> ch \<in> set (co_chapters co) \<and> l \<in> set (ch_lessons ch) \<longrightarrow>
      UploadFile (ls_file l) \<in> set (degree_steps d))"
proof (intro conjI impI)
  assume "dd_thumbnail d = Some f"
  then show "UploadThumbnail f \<in> set (degree_steps d)"
    by (simp add: degree_steps_def thumbnail_step_in)
next
  assume h: "co \<in> set (dd_courses d) \<and> co_thumbnail co = Some f"
  then have "UploadThumbnail f \<in> set (course_steps co)"
    by (simp add: course_steps_def thumbnail_step_in)
  moreover have "set (course_steps co) \<subseteq> set (degree_steps d)"
    using h by (simp add: course_steps_in)
  ultimately show "UploadThumbnail f \<in> set (degree_steps d)" by blast
next
  assume "co \<in> set (dd_courses d) \<and> ch \<in> set (co_chapters co) \<and> l \<in> set (ch_lessons ch)"
  then have "set (lesson_steps l) \<subseteq> set (chapter_steps ch)"
    and "set (chapter_steps ch) \<subseteq> set (course_steps co)"
    and "set (course_steps co) \<subseteq> set (degree_steps d)"
    by (simp_all add: lesson_steps_in chapter_steps_in course_steps_in)
  moreover have "UploadFile (ls_file l) \<in> set (lesson_steps l)" by (simp add: lesson_steps_def)
  ultimately show "UploadFile (ls_file l) \<in> set (degree_steps d)" by blast
qed

lemmas step_defs = degree_steps_def course_steps_def chapter_steps_def lesson_steps_def
  thumbnail_steps_def effect_def

text \<open>
  Claim C2. Take any step of \<^verbatim>\<open>addDegree\<close> that is started in the run from \<open>s\<close>, in
  the state \<open>s1\<close> in which it is started. If the step fails there, \<^verbatim>\<open>addDegree\<close> fails;
  in particular a call of \<^verbatim>\<open>uploadThumbnail\<close> and a call of \<^verbatim>\<open>uploadFile\<close> that
  fails makes \<^verbatim>\<open>addDegree\<close> fail. So does a failure of the assembly as a whole and a
  database that refuses the write. Whenever \<^verbatim>\<open>addDegree\<close> fails, it fails with
  \<^verbatim>\<open>Degree saving failed\<close> and the \<^verbatim>\<open>degrees\<close> collection is what it was before the
  call: no document is written.
\<close>

theorem addDegree_all_or_nothing:
  "((st, s1) \<in> set (steps_reached e (degree_steps d) s) \<and> isl (fst (run_step e st s1)) \<longrightarrow>
      isl (fst (addDegree e d s))) \<and>
   ((UploadThumbnail f, s1) \<in> set (steps_reached e (degree_steps d) s) \<and>
      isl (fst (uploadThumbnail e f s1)) \<longrightarrow> isl (fst (addDegree e d s))) \<and>
   ((UploadFile f, s1) \<in> set (steps_reached e (degree_steps d) s) \<and>
      isl (fst (uploadFile e f s1)) \<longrightarrow> isl (fst (addDegree e d s))) \<and>
   (isl (fst (assembleDegree e d s)) \<longrightarrow> isl (fst (addDegree e d s))) \<and>
   (\<not> firestore_ok e \<longrightarrow> isl (fst (addDegree e d s))) \<and>
   (isl (fst (addDegree e d s)) \<longrightarrow>
      fst (addDegree e d s) = Inl (Error ''Degree saving failed'') \<and>
      degrees (snd (addDegree e d s)) = degrees s)"
proof -
  have frame: "degrees (snd (assembleDegree e d s)) = degrees s"
    by (rule keeps_degreesD [OF keeps_assembleDegree])
  have step: "(x, s1) \<in> set (steps_reached e (degree_steps d) s) \<and> isl (fst (run_step e x s1))
      \<longrightarrow> isl (fst (assembleDegree e d s))" for x
    using assembleDegree_fails_iff [of e d s] by blast
  have thumb: "(UploadThumbnail f, s1) \<in> set (steps_reached e (degree_steps d) s) \<and>
      isl (fst (uploadThumbnail e f s1)) \<longrightarrow> isl (fst (assembleDegree e d s))"
    using step [of "UploadThumbnail f"] by (simp add: effect_isl)
  have upl: "(UploadFile f, s1) \<in> set (steps_reached e (degree_steps d) s) \<and>
      isl (fst (uploadFile e f s1)) \<longrightarrow> isl (fst (assembleDegree e d s))"
    using step [of "UploadFile f"] by (simp add: effect_isl)
  show ?thesis
  proof (cases "assembleDegree e d s")
    case (Pair r s2)
    then show ?thesis using frame step [of st] thumb upl
      by (cases r) (simp_all add: addDegree_cases)
  qed
qed

text \<open>The sample degree with a PDF lesson: the lesson upload is reached after the course
  thumbnail was stored and fails there, so does \<^verbatim>\<open>addDegree\<close>, and the collection stays
  empty. The sample degree with an image lesson and a store that refuses every write: the
  upload of the course thumbnail is the first step and fails, and so does
  \<^verbatim>\<open>addDegree\<close>.\<close>

theorem addDegree_all_or_nothing_witness:
  "(UploadFile pdf_file, after_thumbnail)
     \<in> set (steps_reached env_ok (degree_steps (sample_degree pdf_file None)) world0)
   \<and> isl (fst (uploadFile env_ok pdf_file after_thumbnail))
   \<and> fst (addDegree env_ok (sample_degree pdf_file None) world0) = Inl (Error ''Degree saving failed'')
   \<and> degrees (snd (addDegree env_ok (sample_degree pdf_file None) world0)) = []
   \<and> (UploadThumbnail image_file, world0)
     \<in> set (steps_reached env_store_down (degree_steps (sample_degree image_file None))
          (world0 :: degree_doc world))
   \<and> isl (fst (uploadThumbnail env_store_down image_file (world0 :: degree_doc world)))
   \<and> fst (addDegree env_store_down (sample_degree image_file None) world0)
       = Inl (Error ''Degree saving failed'')
   \<and> degrees (snd (addDegree env_store_down (sample_degree image_file None) world0)) = []"
proof -
  have r1: "(UploadFile pdf_file, after_thumbnail)
     \<in> set (steps_reached env_ok (degree_steps (sample_degree pdf_file None)) world0)"
    by (simp add: run_defs step_defs after_thumbnail_def)
  have f1: "isl (fst (uploadFile env_ok pdf_file after_thumbnail))"
    by (simp add: run_defs after_thumbnail_def)
  have r2: "(UploadThumbnail image_file, world0)
     \<in> set (steps_reached env_store_down (degree_steps (sample_degree image_file None))
          (world0 :: degree_doc world))"
    by (simp add: sample_degree_def step_defs)
  have f2: "isl (fst (uploadThumbnail env_store_down image_file (world0 :: degree_doc world)))"
    by (simp add: run_defs env_store_down_def)
  have a1: "isl (fst (addDegree env_ok (sample_degree pdf_file None) world0))"
    using addDegree_all_or_nothing [of "UploadFile pdf_file" after_thumbnail env_ok
        "sample_degree pdf_file None" world0 pdf_file] r1 f1 by blast
  have a2: "isl (fst (addDegree env_store_down (sample_degree image_file None) world0))"
    using addDegree_all_or_nothing [of "UploadThumbnail image_file" world0 env_store_down
        "sample_degree image_file None" world0 image_file] r2 f2 by blast
  have b1: "fst (addDegree env_ok (sample_degree pdf_file None) world0) = Inl (Error ''Degree saving failed'')
      \<and> degrees (snd (addDegree env_ok (sample_degree pdf_file None) world0)) = degrees world0"
    using addDegree_all_or_nothing [of "UploadFile pdf_file" after_thumbnail env_ok
        "sample_degree pdf_file None" world0 pdf_file] a1 by blast
  have b2: "fst (addDegree env_store_down (sample_degree image_file None) world0)
        = Inl (Error ''Degree saving failed'')
      \<and> degrees (snd (addDegree env_store_down (sample_degree image_file None) world0)) = degrees world0"
    using addDegree_all_or_nothing [of "UploadThumbnail image_file" world0 env_store_down
        "sample_degree image_file None" world0 image_file] a2 by blast
  show ?thesis using r1 f1 r2 f2 b1 b2 by (simp add: world0_def)
qed

text \<open>
  A lesson whose upload fails in whatever state it is reached makes \<^verbatim>\<open>addDegree\<close> fail
  without a write; in degreeApi.js every video or audio lesson is such a lesson.
\<close>

lemma addDegree_fails_with_lesson_upload:
  assumes co: "co \<in> set (dd_courses d)" and ch: "ch \<in> set (co_chapters co)"
    and l: "l \<in> set (ch_lessons ch)"
    and up: "\<And>s1 :: degree_doc world. isl (fst (uploadFile e (ls_file l) s1))"
  shows "isl (fst (addDegree e d s)) \<and> degrees (snd (addDegree e d s)) = degrees s"
proof -
  have a: "\<And>s1 :: degree_doc world. isl (fst (formatLesson e l s1))"
    unfolding formatLesson_def using up by (rule io_bind_fails_first)
  have b: "\<And>s1 :: degree_doc world. isl (fst (formatChapter e ch s1))"
    unfolding formatChapter_def
    by (rule io_bind_fails_first) (rule Promise_all_map_fails [where f = "formatLesson e", OF l a])
  have c: "\<And>s1 :: degree_doc world. isl (fst (formatCourse e co s1))"
    unfolding formatCourse_def
    by (rule io_bind_fails_second, rule io_bind_fails_first) (rule Promise_all_map_fails [where f = "formatChapter e", OF ch b])
  have "isl (fst (assembleDegree e d s))"
    unfolding assembleDegree_def
    by (rule io_bind_fails_second, rule io_bind_fails_first) (rule Promise_all_map_fails [where f = "formatCourse e", OF co c])
  moreover have "degrees (snd (assembleDegree e d s)) = degrees s"
    by (rule keeps_degreesD [OF keeps_assembleDegree])
  ultimately show ?thesis
    by (cases "assembleDegree e d s"; cases "fst (assembleDegree e d s)")
      (auto simp: addDegree_cases)
qed

lemma addDegree_fails_with_video_lesson:
  assumes "co \<in> set (dd_courses d)" and "ch \<in> set (co_chapters co)"
    and "l \<in> set (ch_lessons ch)"
    and "fileType_of (ls_file l) = ''video'' \<or> fileType_of (ls_file l) = ''audio''"
  shows "isl (fst (addDegree e d s)) \<and> degrees (snd (addDegree e d s)) = degrees s"
  using assms(1-3)
  by (rule addDegree_fails_with_lesson_upload) (simp add: uploadFile_media_always_fails [OF assms(4)])

lemma copy_points: "map copy_point ps = ps"
  by (induction ps) (simp_all add: copy_point_def)

lemma questions_mirror: "list_all2 question_mirrors qs (map questionData_of qs)"
  by (induction qs) (simp_all add: question_mirrors_def questionData_of_def)

lemma createTestObject_mirrors:
  "createTestObject e td s = (Inr t, s') \<Longrightarrow> test_mirrors td t"
  by (auto simp: createTestObject_def io_Inr test_mirrors_def questions_mirror)

lemma build_chapter_test_mirrors:
  "build_chapter_test e td s = (Inr t, s') \<Longrightarrow> test_mirrors td t"
  by (auto simp: build_chapter_test_result test_mirrors_def questions_mirror)

lemma formatLesson_mirrors:
  "formatLesson e ls s = (Inr l, s') \<Longrightarrow> lesson_mirrors ls l"
  by (auto simp: formatLesson_def io_Inr lesson_mirrors_def)

lemma chapter_test_of_mirrors:
  "chapter_test_of e t s = (Inr tst, s') \<Longrightarrow> rel_option test_mirrors t tst"
  by (cases t) (auto simp: chapter_test_of_def io_Inr dest: build_chapter_test_mirrors)

lemma final_test_of_mirrors:
  "final_test_of e t s = (Inr tst, s') \<Longrightarrow> rel_option test_mirrors t tst"
  by (cases t) (auto simp: final_test_of_def io_Inr dest: createTestObject_mirrors)

lemma formatChapter_mirrors:
  assumes "formatChapter e ch s = (Inr c, s')"
  shows "chapter_mirrors ch c"
proof -
  from formatChapter_Inr [OF assms] obtain ls s1 tst s2 where
    ls: "Promise_all_map (formatLesson e) (ch_lessons ch) s = (Inr ls, s1)"
    and tst: "chapter_test_of e (ch_test ch) s1 = (Inr tst, s2)"
    and c: "c = \<lparr>chapterId = uuids e (uuid_calls s2), chapterTitle = ch_title ch,
         chapter_description = (case ch_description ch of None \<Rightarrow> [] | Some d \<Rightarrow> d),
         chapter_test = tst, lessons = ls\<rparr>"
    by blast
  have "list_all2 lesson_mirrors (ch_lessons ch) ls"
    using ls by (rule Promise_all_map_rel [rotated]) (rule formatLesson_mirrors)
  then show ?thesis using c chapter_test_of_mirrors [OF tst] by (simp add: chapter_mirrors_def)
qed

lemma formatCourse_mirrors:
  assumes "formatCourse e co s = (Inr c, s')"
  shows "course_mirrors co c"
proof -
  from formatCourse_Inr [OF assms] obtain th s1 chs s2 ft where
    th: "thumbnail_url e (co_thumbnail co) s = (Inr th, s1)" and
    chs: "Promise_all_map (formatChapter e) (co_chapters co) s1 = (Inr chs, s2)"
    and ft: "final_test_of e (co_finalTest co) (s2\<lparr>uuid_calls := Suc (uuid_calls s2)\<rparr>) = (Inr ft, s')"
    and c: "c = \<lparr>courseId = uuids e (uuid_calls s2), courseTitle = co_title co,
         course_description = co_description co, course_thumbnail = th,
         price = co_price co, chapters = chs, finalTest = ft,
         course_overviewPoints = map copy_point (co_overviewPoints co)\<rparr>"
    by blast
  have "list_all2 chapter_mirrors (co_chapters co) chs"
    using chs by (rule Promise_all_map_rel [rotated]) (rule formatChapter_mirrors)
  then show ?thesis using c final_test_of_mirrors [OF ft]
    by (simp add: course_mirrors_def copy_points)
qed

lemma assembleDegree_mirrors:
  assumes "assembleDegree e d s = (Inr g, s')"
  shows "degree_mirrors d g"
proof -
  from assembleDegree_Inr [OF assms] obtain th s1 cs s2 where
    th: "thumbnail_url e (dd_thumbnail d) s = (Inr th, s1)" and
    cs: "Promise_all_map (formatCourse e) (dd_courses d) s1 = (Inr cs, s2)"
    and g: "g = \<lparr>degreeId = uuids e (uuid_calls s2), degreeTitle = dd_name d,
         degree_description = dd_description d, degree_thumbnail = th,
         degree_overviewPoints = map copy_point (dd_overviewPoints d),
         courses = cs, createdAt = now e, updatedAt = None\<rparr>"
    by blast
  have "list_all2 course_mirrors (dd_courses d) cs"
    using cs by (rule Promise_all_map_rel [rotated]) (rule formatCourse_mirrors)
  then show ?thesis using g by (simp add: degree_mirrors_def copy_points)
qed

lemma sample_run:
  "fst (addDegree env_ok (sample_degree image_file (Some (quiz [mcq_q ''f1'' (Str ''b'') None]))) world0)
     = Inr ''uuuuuuuu''"
  by (simp add: run_defs)

text \<open>
  Claim C3. When \<^verbatim>\<open>addDegree\<close> succeeds it has appended one document to the collection,
  the degree whose identifier it returns, and that degree mirrors the input: the same
  number of courses, chapters, lessons, overview points and questions at every level, in
  the order of the input arrays.
\<close>

theorem addDegree_mirrors_input:
  assumes "addDegree e d s = (Inr i, s')"
  shows "\<exists>k g. degrees s' = degrees s @ [(k, g)] \<and> degreeId g = i \<and> degree_mirrors d g"
  using addDegree_Inr [OF assms] assembleDegree_mirrors by blast

text \<open>The sample degree with an image lesson is stored and mirrors its input.\<close>

theorem addDegree_mirrors_input_witness:
  "fst (addDegree env_ok (sample_degree image_file (Some (quiz [mcq_q ''f1'' (Str ''b'') None]))) world0)
     = Inr ''uuuuuuuu''
   \<and> degree_mirrors (sample_degree image_file (Some (quiz [mcq_q ''f1'' (Str ''b'') None])))
       (snd (last (degrees (snd (addDegree env_ok
          (sample_degree image_file (Some (quiz [mcq_q ''f1'' (Str ''b'') None]))) world0)))))"
proof -
  let ?d = "sample_degree image_file (Some (quiz [mcq_q ''f1'' (Str ''b'') None]))"
  obtain s' where run: "addDegree env_ok ?d world0 = (Inr ''uuuuuuuu'', s')"
    using sample_run by (cases "addDegree env_ok ?d world0") simp
  from addDegree_mirrors_input [OF run] obtain k g where
    "degrees s' = degrees world0 @ [(k, g)]" and "degree_mirrors ?d g" by blast
  then show ?thesis using run by simp
qed

lemma createTestObject_fresh:
  "createTestObject e td s = (Inr t, s') \<Longrightarrow> fresh_ids e s s' [testId t]"
  by (auto simp: createTestObject_def io_Inr fresh_uuid)

lemma chapter_test_of_fresh:
  "chapter_test_of e t s = (Inr tst, s') \<Longrightarrow> fresh_ids e s s' (test_ids tst)"
  by (cases t)
    (auto simp: chapter_test_of_def build_chapter_test_result io_Inr test_ids_def fresh_none
      fresh_ids_def)

lemma final_test_of_fresh:
  "final_test_of e t s = (Inr tst, s') \<Longrightarrow> fresh_ids e s s' (test_ids tst)"
  by (cases t)
    (auto simp: final_test_of_def io_Inr test_ids_def fresh_none dest: createTestObject_fresh)

lemma formatLesson_fresh:
  assumes "formatLesson e ls s = (Inr l, s')"
  shows "fresh_ids e s s' [lessonId l]"
proof -
  from assms obtain a s1 where up: "uploadFile e (ls_file ls) s = (Inr a, s1)"
    and s': "s' = s1\<lparr>uuid_calls := Suc (uuid_calls s1)\<rparr>"
    and l: "lessonId l = uuids e (uuid_calls s1)"
    by (auto simp: formatLesson_def io_Inr)
  have "uuid_calls s \<le> uuid_calls s1" by (rule uploadFile_mono [OF up])
  then show ?thesis using s' l by (auto simp: fresh_ids_def)
qed

lemma formatChapter_fresh:
  assumes inj: "inj (uuids e)" and run: "formatChapter e ch s = (Inr c, s')"
  shows "fresh_ids e s s' (chapter_ids c)"
proof -
  from formatChapter_Inr [OF run] obtain ls s1 tst s2 where
    ls: "Promise_all_map (formatLesson e) (ch_lessons ch) s = (Inr ls, s1)"
    and tst: "chapter_test_of e (ch_test ch) s1 = (Inr tst, s2)"
    and s': "s' = s2\<lparr>uuid_calls := Suc (uuid_calls s2)\<rparr>"
    and c: "c = \<lparr>chapterId = uuids e (uuid_calls s2), chapterTitle = ch_title ch,
         chapter_description = (case ch_description ch of None \<Rightarrow> [] | Some d \<Rightarrow> d),
         chapter_test = tst, lessons = ls\<rparr>"
    by blast
  have a: "fresh_ids e s s1 (concat (map (\<lambda>l. [lessonId l]) ls))"
    using inj formatLesson_fresh ls by (rule fresh_Promise_all_map)
  have b: "fresh_ids e s1 s2 (test_ids tst)" by (rule chapter_test_of_fresh [OF tst])
  have ab: "fresh_ids e s s2 (test_ids tst @ map lessonId ls)"
    using inj a b by (rule fresh_join) (simp add: concat_map_singleton)
  have "fresh_ids e s s' (uuids e (uuid_calls s2) # test_ids tst @ map lessonId ls)"
    using inj ab fresh_uuid [of e s2] unfolding s' by (rule fresh_join) simp
  then show ?thesis using c by (simp add: chapter_ids_def)
qed

lemma formatCourse_fresh:
  assumes inj: "inj (uuids e)" and run: "formatCourse e co s = (Inr c, s')"
  shows "fresh_ids e s s' (course_ids c)"
proof -
  from formatCourse_Inr [OF run] obtain th s1 chs s2 ft where
    th: "thumbnail_url e (co_thumbnail co) s = (Inr th, s1)"
    and chs: "Promise_all_map (formatChapter e) (co_chapters co) s1 = (Inr chs, s2)"
    and ft: "final_test_of e (co_finalTest co) (s2\<lparr>uuid_calls := Suc (uuid_calls s2)\<rparr>) = (Inr ft, s')"
    and c: "c = \<lparr>courseId = uuids e (uuid_calls s2), courseTitle = co_title co,
         course_description = co_description co, course_thumbnail = th,
         price = co_price co, chapters = chs, finalTest = ft,
         course_overviewPoints = map copy_point (co_overviewPoints co)\<rparr>"
    by blast
  have t: "fresh_ids e s s1 []" using thumbnail_url_mono [OF th] by (rule fresh_none)
  have a: "fresh_ids e s1 s2 (concat (map chapter_ids chs))"
    using inj formatChapter_fresh [OF inj] chs by (rule fresh_Promise_all_map)
  have ta: "fresh_ids e s s2 (concat (map chapter_ids chs))"
    using inj t a by (rule fresh_join) simp
  have tai: "fresh_ids e s (s2\<lparr>uuid_calls := Suc (uuid_calls s2)\<rparr>)
      (uuids e (uuid_calls s2) # concat (map chapter_ids chs))"
    using inj ta fresh_uuid [of e s2] by (rule fresh_join) simp
  have "fresh_ids e s s' (uuids e (uuid_calls s2) # test_ids ft @ concat (map chapter_ids chs))"
    using inj tai final_test_of_fresh [OF ft] by (rule fresh_join) simp
  then show ?thesis using c by (simp add: course_ids_def)
qed

lemma assembleDegree_fresh:
  assumes inj: "inj (uuids e)" and run: "assembleDegree e d s = (Inr g, s')"
  shows "fresh_ids e s s' (degree_ids g)"
proof -
  from assembleDegree_Inr [OF run] obtain th s1 cs s2 where
    th: "thumbnail_url e (dd_thumbnail d) s = (Inr th, s1)"
    and cs: "Promise_all_map (formatCourse e) (dd_courses d) s1 = (Inr cs, s2)"
    and s': "s' = s2\<lparr>uuid_calls := Suc (uuid_calls s2)\<rparr>"
    and g: "g = \<lparr>degreeId = uuids e (uuid_calls s2), degreeTitle = dd_name d,
         degree_description = dd_description d, degree_thumbnail = th,
         degree_overviewPoints = map copy_point (dd_overviewPoints d),
         courses = cs, createdAt = now e, updatedAt = None\<rparr>"
    by blast
  have t: "fresh_ids e s s1 []" using thumbnail_url_mono [OF th] by (rule fresh_none)
  have a: "fresh_ids e s1 s2 (concat (map course_ids cs))"
    using inj formatCourse_fresh [OF inj] cs by (rule fresh_Promise_all_map)
  have ta: "fresh_ids e s s2 (concat (map course_ids cs))"
    using inj t a by (rule fresh_join) simp
  have "fresh_ids e s s' (uuids e (uuid_calls s2) # concat (map course_ids cs))"
    using inj ta fresh_uuid [of e s2] unfolding s' by (rule fresh_join) simp
  then show ?thesis using g by (simp add: degree_ids_def)
qed

text \<open>
  Claim C4. If the generator never repeats a value, then in the degree that a successful
  \<^verbatim>\<open>addDegree\<close> stores the identifiers of the degree, of its courses, chapters, lessons
  and tests are pairwise distinct, and each of them is a value that the generator returned
  during this call; none comes from the authoring input.
\<close>

theorem addDegree_identifiers_fresh:
  assumes "inj (uuids e)" and "addDegree e d s = (Inr i, s')"
  shows "\<exists>k g. degrees s' = degrees s @ [(k, g)] \<and> degreeId g = i \<and>
           distinct (degree_ids g) \<and>
           set (degree_ids g) \<subseteq> uuids e ` {uuid_calls s..<uuid_calls s'}"
proof -
  from addDegree_Inr [OF assms(2)] obtain g s1 where
    g: "assembleDegree e d s = (Inr g, s1)" and i: "i = degreeId g"
    and u: "uuid_calls s' = uuid_calls s1"
    and w: "degrees s' = degrees s @ [(autoIds e (length (degrees s)), g)]"
    by blast
  have "fresh_ids e s s1 (degree_ids g)" by (rule assembleDegree_fresh [OF assms(1) g])
  then show ?thesis using i u w by (auto simp: fresh_ids_def)
qed

text \<open>The generator of the sample world never repeats a value, and the identifiers of the
  stored sample degree are distinct.\<close>

theorem addDegree_identifiers_fresh_witness:
  "fst (addDegree env_ok (sample_degree image_file (Some (quiz [mcq_q ''f1'' (Str ''b'') None]))) world0)
     = Inr ''uuuuuuuu''
   \<and> distinct (degree_ids (snd (last (degrees (snd (addDegree env_ok
          (sample_degree image_file (Some (quiz [mcq_q ''f1'' (Str ''b'') None]))) world0))))))"
proof -
  let ?d = "sample_degree image_file (Some (quiz [mcq_q ''f1'' (Str ''b'') None]))"
  obtain s' where run: "addDegree env_ok ?d world0 = (Inr ''uuuuuuuu'', s')"
    using sample_run by (cases "addDegree env_ok ?d world0") simp
  from addDegree_identifiers_fresh [OF inj_uuids_env_ok run] obtain k g where
    "degrees s' = degrees world0 @ [(k, g)]" and "distinct (degree_ids g)" by blast
  then show ?thesis using run by simp
qed

text \<open>
  Claim C1 fails on the final test of a course. \<^verbatim>\<open>addDegree\<close> calls
  \<^verbatim>\<open>calculateTotalMarks\<close> on a chapter test (line 141) and not on a final test
  (line 160), whose \<^verbatim>\<open>totalMarks\<close> keeps the initial 0 of \<^verbatim>\<open>createTestObject\<close>. For
  the sample degree with a final test of one unmarked \<^verbatim>\<open>MCQ\<close> question, the degree
  handed to the database has a final test with \<^verbatim>\<open>totalMarks\<close> 0 and marks that sum to 1,
  next to a chapter test with \<^verbatim>\<open>totalMarks\<close> 2 and marks that sum to 2.
\<close>

theorem final_test_total_stays_zero:
  "map totalMarks (stored_final_tests (snd (addDegree env_ok
      (sample_degree image_file (Some (quiz [mcq_q ''f1'' (Str ''b'') None]))) world0))) = [0]
   \<and> map sum_of_marks (stored_final_tests (snd (addDegree env_ok
      (sample_degree image_file (Some (quiz [mcq_q ''f1'' (Str ''b'') None]))) world0))) = [1]
   \<and> map totalMarks (stored_chapter_tests (snd (addDegree env_ok
      (sample_degree image_file (Some (quiz [mcq_q ''f1'' (Str ''b'') None]))) world0))) = [2]
   \<and> map sum_of_marks (stored_chapter_tests (snd (addDegree env_ok
      (sample_degree image_file (Some (quiz [mcq_q ''f1'' (Str ''b'') None]))) world0))) = [2]"
  by (simp add: run_defs stored_final_tests_def stored_chapter_tests_def sum_of_marks_def)

section \<open>Facts about the mutators\<close>

lemma keeps_updateTest: "keeps_degrees (updateTest e tid td)"
  unfolding updateTest_def Let_def by (auto intro!: keeps_intros)

lemma keeps_rebuilt_test: "keeps_degrees (rebuilt_test e t)"
  unfolding rebuilt_test_def
  by (auto intro!: keeps_intros keeps_updateTest split: option.split)

lemma keeps_reformatChapter: "keeps_degrees (reformatChapter e c)"
  unfolding reformatChapter_def
  by (auto intro!: keeps_intros keeps_formatLesson keeps_rebuilt_test)

lemma keeps_reformatCourse: "keeps_degrees (reformatCourse e c)"
  unfolding reformatCourse_def
  by (auto intro!: keeps_intros keeps_reformatChapter keeps_thumbnail_url keeps_rebuilt_test)

lemma editDegree_Inr:
  "editDegree e did upd s = (Inr p, s') \<Longrightarrow>
     \<exists>th s1 cs s2. thumbnail_url e (dd_thumbnail upd) s = (Inr th, s1) \<and>
       Promise_all_map (reformatCourse e) (dd_courses upd) s1 = (Inr cs, s2) \<and>
       updateDoc e did (apply_patch p) s2 = (Inr (), s') \<and>
       p = \<lparr>patch_degreeTitle = dd_name upd, patch_description = dd_description upd,
            patch_thumbnail = or_null th,
            patch_overviewPoints = map copy_point (dd_overviewPoints upd),
            patch_courses = cs, patch_updatedAt = now e\<rparr>"
  by (auto simp: editDegree_def Let_def io_Inr)

text \<open>
  Claim C10. When \<^verbatim>\<open>editDegree\<close> of degreeApi.js succeeds on an update without
  thumbnail, the \<^verbatim>\<open>thumbnail\<close> of the returned \<^verbatim>\<open>updatedDegree\<close> is \<^verbatim>\<open>null\<close>, the
  document existed before, and its \<^verbatim>\<open>thumbnail\<close> field is \<^verbatim>\<open>null\<close> afterwards,
  whatever it was before.
\<close>

theorem editDegree_no_thumbnail_writes_null:
  assumes run: "editDegree e did upd s = (Inr p, s')" and none: "dd_thumbnail upd = None"
  shows "patch_thumbnail p = None \<and> map_of (degrees s) did \<noteq> None \<and>
         map_option degree_thumbnail (map_of (degrees s') did) = Some None"
proof -
  from editDegree_Inr [OF run] obtain th s1 cs s2 where
    th: "thumbnail_url e (dd_thumbnail upd) s = (Inr th, s1)"
    and cs: "Promise_all_map (reformatCourse e) (dd_courses upd) s1 = (Inr cs, s2)"
    and up: "updateDoc e did (apply_patch p) s2 = (Inr (), s')"
    and p: "p = \<lparr>patch_degreeTitle = dd_name upd, patch_description = dd_description upd,
            patch_thumbnail = or_null th,
            patch_overviewPoints = map copy_point (dd_overviewPoints upd),
            patch_courses = cs, patch_updatedAt = now e\<rparr>"
    by blast
  have th_None: "th = None" and s1: "s1 = s"
    using th none by (simp_all add: thumbnail_url_def io_Inr)
  have pt: "patch_thumbnail p = None" using p th_None by (simp add: or_null_def)
  have "degrees (snd (Promise_all_map (reformatCourse e) (dd_courses upd) s1)) = degrees s1"
    by (rule keeps_degreesD [OF keeps_Promise_all_map]) (rule keeps_reformatCourse)
  then have d2: "degrees s2 = degrees s" using cs s1 by simp
  from up have ex: "map_of (degrees s2) did \<noteq> None"
    and s': "degrees s' =
       map (\<lambda>kd. if fst kd = did then (fst kd, apply_patch p (snd kd)) else kd) (degrees s2)"
    by (simp_all add: updateDoc_Inr)
  then obtain g where g: "map_of (degrees s2) did = Some g" by blast
  have "map_of (degrees s') did = Some (apply_patch p g)"
    unfolding s' by (simp add: map_of_update_key g)
  then show ?thesis using pt ex d2 by (simp add: apply_patch_def)
qed

lemmas edit_defs = editDegree_def reformatCourse_def reformatChapter_def rebuilt_test_def
  formatLesson_def thumbnail_url_def uploadFile_def uploadFile_in_def updateDoc_def apply_patch_def
  or_null_def copy_point_def uploadBytes_def getDownloadURL_def
  uuidv4_def io_bind_def io_return_def io_throw_def io_catch_def folder_of_def fileType_of_def
  SUPPORTED_FILE_FOLDERS_def env_ok_def plain_update_def stored_world_def image_file_def Let_def

lemma plain_update_run:
  "isl (fst (editDegree env_ok ''doc1'' plain_update stored_world)) = False"
  by (simp add: edit_defs)

text \<open>A stored degree with a thumbnail, edited without one: the stored URL is replaced
  by \<^verbatim>\<open>null\<close>.\<close>

theorem editDegree_no_thumbnail_writes_null_witness:
  "dd_thumbnail plain_update = None
   \<and> map_option degree_thumbnail (map_of (degrees stored_world) ''doc1'')
       = Some (Some ''https://store/thumbnails/old.png'')
   \<and> map_option degree_thumbnail
        (map_of (degrees (snd (editDegree env_ok ''doc1'' plain_update stored_world))) ''doc1'')
       = Some None"
proof -
  have n: "dd_thumbnail plain_update = None" by (simp add: plain_update_def)
  obtain p s' where run: "editDegree env_ok ''doc1'' plain_update stored_world = (Inr p, s')"
    using plain_update_run
    by (cases "editDegree env_ok ''doc1'' plain_update stored_world";
        cases "fst (editDegree env_ok ''doc1'' plain_update stored_world)") auto
  have "map_option degree_thumbnail (map_of (degrees s') ''doc1'') = Some None"
    using editDegree_no_thumbnail_writes_null [OF run n] by simp
  then show ?thesis using n run by (simp add: stored_world_def)
qed

lemma findIndex_None: "findIndex P xs = None \<longleftrightarrow> (\<forall>x\<in>set xs. \<not> P x)"
  by (induction xs) auto

lemma findIndex_Some: "findIndex P xs = Some i \<Longrightarrow> i < length xs \<and> P (xs ! i)"
  by (induction xs arbitrary: i) (auto split: if_splits)

lemma find_filter: "find P xs = Some y \<Longrightarrow> \<exists>ys. filter P xs = y # ys"
  by (induction xs) (auto split: if_splits)

lemma push_newLesson_not_found:
  assumes "newLesson upd = Some nl"
    and "nl_courseId nl \<notin> courseId ` set (courses data) \<or>
         nl_chapterId nl \<notin> chapterId ` (\<Union>c\<in>set (courses data). set (chapters c))"
  shows "\<exists>msg. push_newLesson e upd data s = (Inl (Error msg), s)"
proof (cases "findIndex (\<lambda>course. courseId course = nl_courseId nl) (courses data)")
  case None
  then show ?thesis using assms(1) by (simp add: push_newLesson_def io_throw_def)
next
  case (Some i)
  from findIndex_Some [OF Some] have i: "i < length (courses data)"
    and ci: "courseId (courses data ! i) = nl_courseId nl" by simp_all
  have "courses data ! i \<in> set (courses data)" using i by simp
  then have "nl_courseId nl \<in> courseId ` set (courses data)" using ci by force
  then have "nl_chapterId nl \<notin> chapterId ` (\<Union>c\<in>set (courses data). set (chapters c))"
    using assms(2) by simp
  then have "\<forall>ch\<in>set (chapters (courses data ! i)). chapterId ch \<noteq> nl_chapterId nl"
    using \<open>courses data ! i \<in> set (courses data)\<close> by force
  then have "findIndex (\<lambda>chapter. chapterId chapter = nl_chapterId nl) (chapters (courses data ! i)) = None"
    by (simp add: findIndex_None)
  then show ?thesis using assms(1) Some by (simp add: push_newLesson_def io_throw_def Let_def)
qed

text \<open>
  Claim C5, amended. For every stored degree, \<^verbatim>\<open>editDegree\<close> of variant 2 called with
  a \<^verbatim>\<open>newLesson\<close> alone whose \<^verbatim>\<open>courseId\<close> or \<^verbatim>\<open>chapterId\<close> does not exist in the
  stored tree returns \<^verbatim>\<open>false\<close> and leaves the world, and so the stored document, as
  it was: nothing is uploaded and nothing is written.
\<close>

theorem appendLesson_not_found_returns_false:
  assumes "find (\<lambda>kd. degreeId (snd kd) = did) (degrees s) = Some (docRef, data)"
    and "nl_courseId nl \<notin> courseId ` set (courses data) \<or>
         nl_chapterId nl \<notin> chapterId ` (\<Union>c\<in>set (courses data). set (chapters c))"
  shows "editDegree_v2 e did \<lparr>newCourse = None, newChapter = None, newLesson = Some nl\<rparr> s
           = (Inr False, s)"
proof (cases "firestore_ok e")
  case False
  then show ?thesis
    by (simp add: editDegree_v2_def getDocs_where_degreeId_def io_catch_def io_bind_def io_return_def)
next
  case True
  let ?upd = "\<lparr>newCourse = None, newChapter = None, newLesson = Some nl\<rparr>"
  from find_filter [OF assms(1)] obtain rest where
    f: "filter (\<lambda>kd. degreeId (snd kd) = did) (degrees s) = (docRef, data) # rest" by blast
  obtain msg where nf: "push_newLesson e ?upd data s = (Inl (Error msg), s)"
    using push_newLesson_not_found [of ?upd nl data e s] assms(2) by auto
  show ?thesis using True f nf
    by (simp add: editDegree_v2_def getDocs_where_degreeId_def push_newCourse_def
        push_newChapter_def io_catch_def io_bind_def io_return_def)
qed

lemmas v2_defs = editDegree_v2_def getDocs_where_degreeId_def push_newCourse_def
  push_newChapter_def push_newLesson_def io_catch_def io_bind_def io_return_def io_throw_def
  env_ok_def stored_world_v2_def append_lesson_def image_file_def Let_def

text \<open>A missing chapter and a missing course in the stored sample degree.\<close>

theorem appendLesson_not_found_returns_false_witness:
  "editDegree_v2 env_ok ''deg1'' (append_lesson ''c1'' ''missing'') stored_world_v2
     = (Inr False, stored_world_v2)
   \<and> editDegree_v2 env_ok ''deg1'' (append_lesson ''nope'' ''ch1'') stored_world_v2
     = (Inr False, stored_world_v2)"
proof -
  let ?data = "snd (hd (degrees stored_world_v2))"
  have f: "find (\<lambda>kd. degreeId (snd kd) = ''deg1'') (degrees stored_world_v2) = Some (''doc1'', ?data)"
    by (simp add: stored_world_v2_def)
  have a: "nl_courseId \<lparr>nl_courseId = ''c1'', nl_chapterId = ''missing'', nl_title = ''Welcome'',
        nl_file = image_file\<rparr> \<notin> courseId ` set (courses ?data) \<or>
      nl_chapterId \<lparr>nl_courseId = ''c1'', nl_chapterId = ''missing'', nl_title = ''Welcome'',
        nl_file = image_file\<rparr> \<notin> chapterId ` (\<Union>c\<in>set (courses ?data). set (chapters c))"
    by (simp add: stored_world_v2_def)
  have b: "nl_courseId \<lparr>nl_courseId = ''nope'', nl_chapterId = ''ch1'', nl_title = ''Welcome'',
        nl_file = image_file\<rparr> \<notin> courseId ` set (courses ?data) \<or>
      nl_chapterId \<lparr>nl_courseId = ''nope'', nl_chapterId = ''ch1'', nl_title = ''Welcome'',
        nl_file = image_file\<rparr> \<notin> chapterId ` (\<Union>c\<in>set (courses ?data). set (chapters c))"
    by (simp add: stored_world_v2_def)
  show ?thesis
    using appendLesson_not_found_returns_false [OF f a, of env_ok]
      appendLesson_not_found_returns_false [OF f b, of env_ok]
    by (simp add: append_lesson_def)
qed

text \<open>
  Claim C5 as stated fails: for a chapter identifier that the stored course does not have,
  the call returns \<^verbatim>\<open>false\<close>; no error reaches the caller.
\<close>

theorem appendLesson_not_found_no_error:
  "fst (editDegree_v2 env_ok ''deg1'' (append_lesson ''c1'' ''missing'') stored_world_v2) = Inr False
   \<and> isl (fst (editDegree_v2 env_ok ''deg1'' (append_lesson ''c1'' ''missing'') stored_world_v2)) = False"
  by (simp add: v2_defs)

end
